theory Spec2Isabelle
  imports Main "HOL-Library.Multiset" "HOL-Library.AList" "HOL-Library.Log_Nat"
begin

section \<open>Python values, errors and dictionaries\<close>

text \<open>
  The values that occur in the columns of a dataset and in the label vocabulary.
  \<open>VTensor i\<close> is the zero-dimensional integer tensor \<^verbatim>\<open>torch.tensor(i)\<close>.
\<close>

datatype pyval = VStr string | VInt int | VInts "int list" | VTensor int

datatype error =
  KeyError string | ValueError | IndexError | ZeroDivisionError | TypeError | OverflowError

text \<open>
  A Python \<^verbatim>\<open>dict\<close> with string keys, as an association list in insertion order.
  \<^verbatim>\<open>d[k]\<close> raises \<^verbatim>\<open>KeyError\<close> for a missing key.
\<close>

type_synonym row = "(string \<times> pyval) list"

definition getitem :: "(string \<times> 'v) list \<Rightarrow> string \<Rightarrow> error + 'v" where
  "getitem d k = (case map_of d k of None \<Rightarrow> Inl (KeyError k) | Some v \<Rightarrow> Inr v)"

text \<open>\<^verbatim>\<open>{**d, **u}\<close>: the keys of \<open>u\<close> are stored into \<open>d\<close> from left to right.\<close>

definition dict_update :: "row \<Rightarrow> row \<Rightarrow> row" where
  "dict_update d u = fold (\<lambda>(k, v). AList.update k v) u d"

text \<open>
  \<^verbatim>\<open>list.index(x)\<close>: the position of the first element equal to \<open>x\<close>,
  \<^verbatim>\<open>ValueError\<close> when there is none.
\<close>

fun list_index :: "'a list \<Rightarrow> 'a \<Rightarrow> error + nat" where
  "list_index [] x = Inl ValueError"
| "list_index (y # ys) x =
     (if y = x then Inr 0
      else (case list_index ys x of Inl e \<Rightarrow> Inl e | Inr i \<Rightarrow> Inr (Suc i)))"

section \<open>The task object and its collaborators\<close>

text \<open>
  The value of \<^verbatim>\<open>self.resume_from_checkpoint\<close>: \<^verbatim>\<open>False\<close>, \<^verbatim>\<open>None\<close> or a
  directory path. A path is truthy unless it is the empty string.
\<close>

datatype ckpt = CkptFalse | CkptNone | CkptPath string

fun truthy :: "ckpt \<Rightarrow> bool" where
  "truthy (CkptPath d) = (d \<noteq> [])"
| "truthy _ = False"

text \<open>
  A loaded tokenizer: \<open>encode\<close> is what calling it with
  \<^verbatim>\<open>truncation=True, padding=False\<close> returns (a dictionary) or raises.
\<close>

datatype tokenizer = Tokenizer (encode: "pyval \<Rightarrow> error + row")

text \<open>
  The attributes of the task object that this module reads or writes. The class attribute
  \<^verbatim>\<open>tokenizer = None\<close> is \<open>None\<close> until a tokenizer is loaded. A floating-point
  hyper-parameter that is only handed on (\<open>learning_rate\<close>) is kept as its literal.
  \<open>val_set_size\<close> is an integer row count.
\<close>

record llm =
  base_model :: string
  load_8bit :: bool
  device_map :: string
  add_eos_token :: bool
  tokenizer :: "tokenizer option"
  labels :: "pyval list"
  val_set_size :: int
  lora_target_modules :: "string list"
  model_type :: string
  resume_from_checkpoint :: ckpt
  per_gpu_train_batch_size :: int
  gradient_accumulation_steps :: int
  world_size :: int
  ddp :: bool
  epochs :: int
  learning_rate :: string
  is_fp16 :: bool
  logging_steps :: int
  output_dir :: string
  group_by_length :: bool
  use_mps_device :: bool
  disable_wandb :: bool
  adapter_weights :: string
  device :: string

section \<open>Tokenization\<close>

text \<open>
  \<^verbatim>\<open>
  def tokenize_prompt(self, data_point):
      tokenize_res = self.tokenizer(data_point["input"], truncation=True, padding=False)
      tokenize_res["labels"] = torch.tensor(self.labels.index(data_point["output"]))
      return tokenize_res
  \<close>
  The statements run in the source's order, so a missing \<^verbatim>\<open>input\<close> key or a
  failing tokenizer is reported before the label is looked up. Calling the tokenizer while
  it is still \<^verbatim>\<open>None\<close> is a \<^verbatim>\<open>TypeError\<close>.
\<close>

definition tokenize_prompt :: "llm \<Rightarrow> row \<Rightarrow> error + row" where
  "tokenize_prompt self data_point =
     (case getitem data_point ''input'' of
        Inl e \<Rightarrow> Inl e
      | Inr inp \<Rightarrow>
          (case tokenizer self of
             None \<Rightarrow> Inl TypeError
           | Some t \<Rightarrow>
               (case encode t inp of
                  Inl e \<Rightarrow> Inl e
                | Inr tokenize_res \<Rightarrow>
                    (case getitem data_point ''output'' of
                       Inl e \<Rightarrow> Inl e
                     | Inr out \<Rightarrow>
                         (case list_index (labels self) out of
                            Inl e \<Rightarrow> Inl e
                          | Inr i \<Rightarrow>
                              Inr (AList.update ''labels'' (VTensor (int i)) tokenize_res))))))"

section \<open>Datasets\<close>

text \<open>
  A dataset of the \<^verbatim>\<open>datasets\<close> library: its column names and its rows, each row a
  dictionary from column name to value. The operations below are the ones the module
  calls, modelled from the library's documented behaviour.
\<close>

record dataset =
  column_names :: "string list"
  rows :: "row list"

definition num_rows :: "dataset \<Rightarrow> nat" where
  "num_rows ds = length (rows ds)"

text \<open>
  \<^verbatim>\<open>Dataset.select(indices)\<close>: the rows at the given positions, in the given order;
  an index out of range raises \<^verbatim>\<open>IndexError\<close>.
\<close>

definition select :: "nat list \<Rightarrow> dataset \<Rightarrow> error + dataset" where
  "select indices ds =
     (if list_all (\<lambda>i. i < length (rows ds)) indices
      then Inr (ds\<lparr>rows := map (\<lambda>i. rows ds ! i) indices\<rparr>)
      else Inl IndexError)"

text \<open>
  What a value is once written to a column and read back: a zero-dimensional integer
  tensor is stored as an integer.
\<close>

fun arrow_value :: "pyval \<Rightarrow> pyval" where
  "arrow_value (VTensor i) = VInt i"
| "arrow_value v = v"

definition written :: "row \<Rightarrow> row" where
  "written u = map (\<lambda>(k, v). (k, arrow_value v)) u"

text \<open>
  \<^verbatim>\<open>Dataset.map(f)\<close>, one row at a time: every row is merged with the dictionary
  \<open>f\<close> returns for it, as written to the columns; the first row on which \<open>f\<close> raises
  ends the call with that error. The new columns are those of the rows written (none for
  an empty dataset).
\<close>

fun map_rows :: "(row \<Rightarrow> error + row) \<Rightarrow> row list \<Rightarrow> error + row list" where
  "map_rows f [] = Inr []"
| "map_rows f (r # rs) =
     (case f r of
        Inl e \<Rightarrow> Inl e
      | Inr u \<Rightarrow>
          (case map_rows f rs of
             Inl e \<Rightarrow> Inl e
           | Inr us \<Rightarrow> Inr (dict_update r (written u) # us)))"

definition dataset_map :: "(row \<Rightarrow> error + row) \<Rightarrow> dataset \<Rightarrow> error + dataset" where
  "dataset_map f ds =
     (case map_rows f (rows ds) of
        Inl e \<Rightarrow> Inl e
      | Inr rs \<Rightarrow>
          Inr \<lparr>column_names = (case rs of [] \<Rightarrow> column_names ds | r # _ \<Rightarrow> map fst r),
               rows = rs\<rparr>)"

text \<open>
  \<^verbatim>\<open>Dataset.remove_columns(names)\<close>: \<^verbatim>\<open>ValueError\<close> when a name is not a column
  of the dataset; otherwise the columns are dropped from the schema and from every row.
\<close>

definition remove_columns :: "string list \<Rightarrow> dataset \<Rightarrow> error + dataset" where
  "remove_columns names ds =
     (if list_all (\<lambda>n. n \<in> set (column_names ds)) names
      then Inr \<lparr>column_names = filter (\<lambda>c. c \<notin> set names) (column_names ds),
                rows = map (filter (\<lambda>kv. fst kv \<notin> set names)) (rows ds)\<rparr>
      else Inl ValueError)"

text \<open>Sequencing of calls that may raise: the first error ends the chain.\<close>

definition and_then :: "error + 'a \<Rightarrow> ('a \<Rightarrow> error + 'b) \<Rightarrow> error + 'b" where
  "and_then r f = (case r of Inl e \<Rightarrow> Inl e | Inr x \<Rightarrow> f x)"

text \<open>
  What the module takes from outside itself: the random generators of the
  \<^verbatim>\<open>datasets\<close> library, the file system, the pretrained tokenizer and the hooks of the
  base class. \<open>seeded_permutation seed n\<close> is the index permutation the generator seeded
  with \<open>seed\<close> draws for \<open>n\<close> rows; \<open>unseeded_permutation k n\<close> is the one drawn by the
  \<open>k\<close>-th shuffle of the run that names no seed. \<open>torch_version_at_least_2\<close> is the
  outcome of the version comparison \<^verbatim>\<open>torch.__version__ >= "2"\<close>.
\<close>

record world =
  seeded_permutation :: "nat \<Rightarrow> nat \<Rightarrow> nat list"
  unseeded_permutation :: "nat \<Rightarrow> nat \<Rightarrow> nat list"
  path_exists :: "string \<Rightarrow> bool"
  pretrained_tokenizer :: tokenizer
  pad_token_is_none :: bool
  auto_device :: "llm \<Rightarrow> llm"
  load_adapter_config :: "llm \<Rightarrow> llm"
  load_train_data :: "llm \<Rightarrow> pyval \<Rightarrow> pyval \<Rightarrow> llm \<times> (string \<times> dataset) list option"
  torch_version_at_least_2 :: bool
  platform :: string
  get_eval_input :: "row list"
  argmax_logits :: "string option \<Rightarrow> pyval \<Rightarrow> error + nat"

text \<open>Both generators draw permutations of the row indices.\<close>

definition permutations_ok :: "world \<Rightarrow> bool" where
  "permutations_ok w =
     ((\<forall>seed n. mset (seeded_permutation w seed n) = mset [0..<n]) \<and>
      (\<forall>k n. mset (unseeded_permutation w k n) = mset [0..<n]))"

text \<open>
  \<^verbatim>\<open>Dataset.train_test_split(test_size, shuffle=True, seed)\<close> for an integer
  \<open>test_size\<close>: a dataset without rows is returned as both parts; otherwise the size
  must be positive and smaller than the number of rows (\<^verbatim>\<open>ValueError\<close> if not), and
  the first \<open>n_test\<close> indices of the seeded permutation are
  the test rows, the following \<open>n_train\<close> the train rows. The result is the pair
  (\<^verbatim>\<open>"train"\<close>, \<^verbatim>\<open>"test"\<close>).
\<close>

definition train_test_split ::
  "world \<Rightarrow> int \<Rightarrow> nat \<Rightarrow> dataset \<Rightarrow> error + dataset \<times> dataset" where
  "train_test_split w test_size seed ds =
     (let n_samples = num_rows ds in
      if n_samples = 0 then Inr (ds, ds)
      else if test_size \<ge> int n_samples \<or> test_size \<le> 0 then Inl ValueError
      else
        let n_test = nat test_size;
            n_train = n_samples - n_test;
            permutation = seeded_permutation w seed n_samples
        in and_then (select (take n_train (drop n_test permutation)) ds) (\<lambda>train_split.
           and_then (select (take n_test permutation) ds) (\<lambda>test_split.
           Inr (train_split, test_split))))"

text \<open>\<^verbatim>\<open>Dataset.shuffle()\<close> with no seed: the \<open>k\<close>-th unseeded shuffle of the run.\<close>

definition shuffle :: "world \<Rightarrow> nat \<Rightarrow> dataset \<Rightarrow> error + dataset" where
  "shuffle w k ds = select (unseeded_permutation w k (num_rows ds)) ds"

section \<open>Splitting the training data\<close>

text \<open>
  \<^verbatim>\<open>
  def split_train_data(self, data):
      if self.val_set_size > 0:
          train_val = data["train"].train_test_split(
              test_size=self.val_set_size, shuffle=True, seed=42)
          train_data = (train_val["train"].shuffle().map(self.tokenize_prompt)
                        .remove_columns(["input", "instruction", "output"]))
          val_data = (train_val["test"].shuffle().map(self.tokenize_prompt)
                      .remove_columns(["input", "instruction", "output"]))
      else:
          train_data = (data["train"].shuffle().map(self.tokenize_prompt)
                        .remove_columns(["input", "instruction", "output"]))
          val_data = None
      return train_data, val_data
  \<close>
\<close>

definition split_train_data ::
  "world \<Rightarrow> llm \<Rightarrow> (string \<times> dataset) list \<Rightarrow> error + dataset \<times> dataset option" where
  "split_train_data w self data =
     (if val_set_size self > 0 then
        and_then (getitem data ''train'') (\<lambda>d.
        and_then (train_test_split w (val_set_size self) 42 d) (\<lambda>train_val.
        and_then (and_then (and_then (shuffle w 0 (fst train_val))
            (dataset_map (tokenize_prompt self)))
            (remove_columns [''input'', ''instruction'', ''output''])) (\<lambda>train_data.
        and_then (and_then (and_then (shuffle w 1 (snd train_val))
            (dataset_map (tokenize_prompt self)))
            (remove_columns [''input'', ''instruction'', ''output''])) (\<lambda>val_data.
        Inr (train_data, Some val_data)))))
      else
        and_then (getitem data ''train'') (\<lambda>d.
        and_then (and_then (and_then (shuffle w 0 d)
            (dataset_map (tokenize_prompt self)))
            (remove_columns [''input'', ''instruction'', ''output''])) (\<lambda>train_data.
        Inr (train_data, None))))"

section \<open>Fine-tuning\<close>

text \<open>
  The calls the module makes on its collaborators (the model, the trainer, the libraries,
  the console), recorded in the order they happen. The model object itself is opaque.
\<close>

record training_args =
  arg_per_device_train_batch_size :: int
  arg_gradient_accumulation_steps :: int
  arg_warmup_steps :: int
  arg_num_train_epochs :: int
  arg_learning_rate :: string
  arg_fp16 :: bool
  arg_optim :: string
  arg_logging_steps :: int
  arg_evaluation_strategy :: string
  arg_save_strategy :: string
  arg_eval_steps :: "int option"
  arg_save_steps :: int
  arg_output_dir :: string
  arg_save_total_limit :: int
  arg_load_best_model_at_end :: bool
  arg_ddp_find_unused_parameters :: "bool option"
  arg_group_by_length :: bool
  arg_use_mps_device :: bool
  arg_report_to :: "string option"

datatype event =
    AutoDevice
  | ModelFromPretrained string bool string
  | TokenizerFromPretrained string bool
  | AddSpecialTokens
  | PrepareModelForInt8Training
  | LoadAdapterConfig
  | LoadTrainData pyval pyval
  | Print string
  | TorchLoad string
  | SetPeftModelStateDict string
  | TrainingArguments training_args
  | Trainer dataset "dataset option" training_args
  | SetUseCache bool
  | TorchCompile
  | TrainerTrain ckpt
  | SavePretrained string
  | PeftFromPretrained string
  | ModelHalf
  | ModelTo string
  | ModelEval
  | GetEvalInput
  | EvalOutput "row list"

datatype outcome = Returned | Raised error


text \<open>
  \<^verbatim>\<open>get_model_tokenizer\<close>: the model and the tokenizer are loaded from
  \<^verbatim>\<open>self.base_model\<close>; a tokenizer without a padding token gets its end-of-sequence
  token as one.
\<close>

definition get_model_tokenizer :: "world \<Rightarrow> llm \<Rightarrow> event list \<times> tokenizer" where
  "get_model_tokenizer w self =
     ([ModelFromPretrained (base_model self) (load_8bit self) (device_map self),
       TokenizerFromPretrained (base_model self) (add_eos_token self)]
      @ (if pad_token_is_none w then [AddSpecialTokens] else []),
      pretrained_tokenizer w)"

text \<open>
  \<^verbatim>\<open>os.path.join(a, b)\<close> on a POSIX system.
\<close>

definition path_join :: "string \<Rightarrow> string \<Rightarrow> string" where
  "path_join a b =
     (if b \<noteq> [] \<and> hd b = CHR ''/'' then b
      else if a = [] \<or> last a = CHR ''/'' then a @ b
      else a @ ''/'' @ b)"

text \<open>
  Lines 68 to 83 of \<^verbatim>\<open>finetune\<close>: the adapter's target modules default by model
  family when none are configured.
\<close>

definition default_lora_target_modules :: "llm \<Rightarrow> llm" where
  "default_lora_target_modules self =
     (if lora_target_modules self = [] then
        (if model_type self = ''llama2''
         then self\<lparr>lora_target_modules :=
                [''q_proj'', ''v_proj'', ''k_proj'', ''o_proj'', ''gate_proj'', ''down_proj'',
                 ''up_proj'']\<rparr>
         else self\<lparr>lora_target_modules := [''q_proj'', ''v_proj'']\<rparr>)
      else self)"

text \<open>
  Lines 98 to 116: checkpoint resolution.
  \<^verbatim>\<open>
  if self.resume_from_checkpoint:
      checkpoint_name = os.path.join(self.resume_from_checkpoint, "pytorch_model.bin")
      if not os.path.exists(checkpoint_name):
          checkpoint_name = os.path.join(self.resume_from_checkpoint, "adapter_model.bin")
          self.resume_from_checkpoint = False
      if os.path.exists(checkpoint_name):
          print(f"Restarting from {checkpoint_name}")
          adapters_weights = torch.load(checkpoint_name)
          set_peft_model_state_dict(model, adapters_weights)
      else:
          print(f"Checkpoint {checkpoint_name} not found")
  \<close>
  The result is the new value of \<^verbatim>\<open>self.resume_from_checkpoint\<close> and the calls made.
\<close>

definition resolve_checkpoint :: "world \<Rightarrow> ckpt \<Rightarrow> ckpt \<times> event list" where
  "resolve_checkpoint w r =
     (case r of
        CkptPath d \<Rightarrow>
          if d \<noteq> [] then
            let full = path_join d ''pytorch_model.bin'';
                checkpoint_name =
                  (if \<not> path_exists w full then path_join d ''adapter_model.bin'' else full);
                r' = (if \<not> path_exists w full then CkptFalse else r)
            in if path_exists w checkpoint_name
               then (r', [Print (''Restarting from '' @ checkpoint_name),
                          TorchLoad checkpoint_name,
                          SetPeftModelStateDict checkpoint_name])
               else (r', [Print (''Checkpoint '' @ checkpoint_name @ '' not found'')])
          else (r, [])
      | _ \<Rightarrow> (r, []))"

text \<open>
  \<^verbatim>\<open>int(a / b)\<close> for two integers. \<^verbatim>\<open>a / b\<close> is the binary64 number nearest to
  the exact quotient, ties to the even significand: with \<open>e\<close> the exponent that puts
  \<open>\<bar>a\<bar> / (\<bar>b\<bar> * 2 ^ e)\<close> between \<open>2 ^ 52\<close> and \<open>2 ^ 53\<close>, it is \<open>m * 2 ^ e\<close>
  for the integer \<open>m\<close> nearest to that ratio. A zero divisor raises
  \<^verbatim>\<open>ZeroDivisionError\<close>, a quotient beyond the largest binary64 number
  \<^verbatim>\<open>OverflowError\<close>. \<^verbatim>\<open>int\<close> truncates towards zero. (A quotient below the normal
  range truncates to zero however it is rounded.)
\<close>

definition round_half_even :: "int \<Rightarrow> int \<Rightarrow> int" where
  "round_half_even x y =
     (let q = x div y; r = x mod y
      in if 2 * r < y then q
         else if 2 * r > y then q + 1
         else if even q then q else q + 1)"

definition floor_log2_ratio :: "int \<Rightarrow> int \<Rightarrow> int" where
  "floor_log2_ratio a b =
     (let d = bitlen a - bitlen b
      in if a * 2 ^ nat (- d) \<ge> b * 2 ^ nat d then d else d - 1)"

definition int_of_truediv :: "int \<Rightarrow> int \<Rightarrow> error + int" where
  "int_of_truediv a b =
     (if b = 0 then Inl ZeroDivisionError
      else if a = 0 then Inr 0
      else
        let e = floor_log2_ratio \<bar>a\<bar> \<bar>b\<bar> - 52;
            m = round_half_even (\<bar>a\<bar> * 2 ^ nat (- e)) (\<bar>b\<bar> * 2 ^ nat e)
        in if m * 2 ^ nat e \<ge> 2 ^ 1024 then Inl OverflowError
           else Inr (sgn a * sgn b * (m * 2 ^ nat e div 2 ^ nat (- e))))"

text \<open>
  Lines 118 to 121: the step schedule.
  \<^verbatim>\<open>
  total_batch_size = self.per_gpu_train_batch_size * self.gradient_accumulation_steps
                     * (self.world_size if self.ddp else 1)
  total_optim_steps = train_data.num_rows // total_batch_size
  saving_step = int(total_optim_steps / 10)
  warmup_steps = int(total_optim_steps / 10)
  \<close>
  \<^verbatim>\<open>//\<close> is floor division and raises \<^verbatim>\<open>ZeroDivisionError\<close> for a zero divisor.
\<close>

record schedule =
  total_batch_size :: int
  total_optim_steps :: int
  saving_step :: int
  warmup_steps :: int

definition step_schedule :: "llm \<Rightarrow> nat \<Rightarrow> error + schedule" where
  "step_schedule self n_rows =
     (let tbs = per_gpu_train_batch_size self * gradient_accumulation_steps self
                * (if ddp self then world_size self else 1)
      in if tbs = 0 then Inl ZeroDivisionError
         else
           let tos = int n_rows div tbs
           in and_then (int_of_truediv tos 10) (\<lambda>saving.
              and_then (int_of_truediv tos 10) (\<lambda>warmup.
              Inr \<lparr>total_batch_size = tbs, total_optim_steps = tos,
                   saving_step = saving, warmup_steps = warmup\<rparr>)))"

text \<open>Lines 122 to 143: the training configuration.\<close>

definition train_args :: "llm \<Rightarrow> schedule \<Rightarrow> training_args" where
  "train_args self sch =
     \<lparr>arg_per_device_train_batch_size = per_gpu_train_batch_size self,
      arg_gradient_accumulation_steps = gradient_accumulation_steps self,
      arg_warmup_steps = warmup_steps sch,
      arg_num_train_epochs = epochs self,
      arg_learning_rate = learning_rate self,
      arg_fp16 = is_fp16 self,
      arg_optim = ''adamw_torch'',
      arg_logging_steps = logging_steps self,
      arg_evaluation_strategy = (if val_set_size self > 0 then ''steps'' else ''no''),
      arg_save_strategy = ''steps'',
      arg_eval_steps = (if val_set_size self > 0 then Some (saving_step sch) else None),
      arg_save_steps = saving_step sch,
      arg_output_dir = output_dir self,
      arg_save_total_limit = 11,
      arg_load_best_model_at_end = (if val_set_size self > 0 then True else False),
      arg_ddp_find_unused_parameters = (if ddp self then Some False else None),
      arg_group_by_length = group_by_length self,
      arg_use_mps_device = use_mps_device self,
      arg_report_to = (if disable_wandb self then None else Some ''wandb'')\<rparr>"

text \<open>
  Lines 66 to 91 of \<^verbatim>\<open>finetune\<close>: the device, the default target modules, the model
  and the tokenizer, the adapter configuration and the training data. The hooks of the
  base class may change the task object; they are taken to return. The result is the task
  object after line 91, the calls made and what \<^verbatim>\<open>load_train_data\<close> returned
  (\<open>None\<close> for Python's \<^verbatim>\<open>None\<close>).
\<close>

definition finetune_setup ::
  "world \<Rightarrow> llm \<Rightarrow> pyval \<Rightarrow> pyval \<Rightarrow> llm \<times> event list \<times> (string \<times> dataset) list option" where
  "finetune_setup w self fromdb iteration =
     (let self1 = default_lora_target_modules (auto_device w self);
          loaded = get_model_tokenizer w self1;
          self2 = self1\<lparr>tokenizer := Some (snd loaded)\<rparr>;
          self3 = load_adapter_config w self2;
          got = load_train_data w self3 fromdb iteration
      in (fst got,
          [AutoDevice] @ fst loaded
          @ (if load_8bit self2 then [PrepareModelForInt8Training] else [])
          @ [LoadAdapterConfig, LoadTrainData fromdb iteration],
          snd got))"

text \<open>
  Lines 92 to 162: \<^verbatim>\<open>not data\<close> holds for \<^verbatim>\<open>None\<close> and for a dictionary with no
  split; then a warning is printed and the method returns. Otherwise the data is split,
  the checkpoint resolved, the schedule computed, and the trainer built and run.
\<close>

definition finetune_run ::
  "world \<Rightarrow> llm \<Rightarrow> (string \<times> dataset) list option \<Rightarrow> llm \<times> event list \<times> outcome" where
  "finetune_run w self data =
     (if data = None \<or> data = Some [] then
        (self, [Print ''Warning! Empty Train Data!''], Returned)
      else
        (case split_train_data w self (the data) of
           Inl e \<Rightarrow> (self, [], Raised e)
         | Inr (train_data, val_data) \<Rightarrow>
             let resolved = resolve_checkpoint w (resume_from_checkpoint self);
                 self' = self\<lparr>resume_from_checkpoint := fst resolved\<rparr>
             in (case step_schedule self' (num_rows train_data) of
                   Inl e \<Rightarrow> (self', snd resolved, Raised e)
                 | Inr sch \<Rightarrow>
                     (self',
                      snd resolved
                      @ [TrainingArguments (train_args self' sch),
                         Trainer train_data val_data (train_args self' sch),
                         SetUseCache False]
                      @ (if torch_version_at_least_2 w \<and> platform w \<noteq> ''win32''
                         then [TorchCompile] else [])
                      @ [TrainerTrain (resume_from_checkpoint self'),
                         SavePretrained (output_dir self'),
                         Print (CHR 0x0A # '' If there'' @ CHR 0x27
                                # ''s a warning about missing keys above, please disregard :)'')],
                      Returned))))"

definition finetune :: "world \<Rightarrow> llm \<Rightarrow> pyval \<Rightarrow> pyval \<Rightarrow> llm \<times> event list \<times> outcome" where
  "finetune w self fromdb iteration =
     (let s = finetune_setup w self fromdb iteration;
          r = finetune_run w (fst s) (snd (snd s))
      in (fst r, fst (snd s) @ fst (snd r), snd (snd r)))"

section \<open>Evaluation and batch inference\<close>

text \<open>
  \<^verbatim>\<open>
  def evaluate(self, model, input=None, **kwargs):
      inputs = self.tokenizer(input, return_tensors="pt")
      with torch.no_grad():
          logits = model(**inputs).logits
          predicted_class_idx = torch.argmax(logits, dim=1).item()
          return self.labels[predicted_class_idx]
  \<close>
  \<open>argmax_logits w adapter input\<close> is the index the model (with the adapter, if one is
  loaded) scores highest for the tokenized input.
\<close>

definition evaluate :: "world \<Rightarrow> llm \<Rightarrow> string option \<Rightarrow> pyval \<Rightarrow> error + pyval" where
  "evaluate w self adapter inp =
     (case tokenizer self of
        None \<Rightarrow> Inl TypeError
      | Some t \<Rightarrow>
          and_then (argmax_logits w adapter inp) (\<lambda>predicted_class_idx.
            if predicted_class_idx < length (labels self)
            then Inr (labels self ! predicted_class_idx)
            else Inl IndexError))"

text \<open>The loop of \<^verbatim>\<open>generate\<close>: every item gets its prediction as \<^verbatim>\<open>ac_output\<close>.\<close>

fun evaluate_items ::
  "world \<Rightarrow> llm \<Rightarrow> string option \<Rightarrow> row list \<Rightarrow> error + row list" where
  "evaluate_items w self adapter [] = Inr []"
| "evaluate_items w self adapter (item # items) =
     and_then (getitem item ''input'') (\<lambda>inp.
     and_then (evaluate w self adapter inp) (\<lambda>response.
     and_then (evaluate_items w self adapter items) (\<lambda>rest.
     Inr (AList.update ''ac_output'' response item # rest))))"

text \<open>
  \<^verbatim>\<open>
  def generate(self, instruction, input, data, fromdb, type, iteration, test_iteration):
      self.auto_device()
      model, self.tokenizer = self.get_model_tokenizer()
      if self.adapter_weights != "None":
          model = PeftModel.from_pretrained(model, self.adapter_weights)
      if not self.load_8bit:
          model.half()
      model.to(self.device).eval()
      eval_inputs = self.get_eval_input(instruction, input, data, fromdb, type, iteration)
      for item in eval_inputs:
          response = self.evaluate(model, item["input"])
          item["ac_output"] = response
      self.eval_output(eval_inputs, data, fromdb, type, iteration, test_iteration)
  \<close>
\<close>

definition generate :: "world \<Rightarrow> llm \<Rightarrow> llm \<times> event list \<times> outcome" where
  "generate w self =
     (let self1 = auto_device w self;
          loaded = get_model_tokenizer w self1;
          self2 = self1\<lparr>tokenizer := Some (snd loaded)\<rparr>;
          adapter = (if adapter_weights self2 \<noteq> ''None''
                     then Some (adapter_weights self2) else None);
          evs = [AutoDevice] @ fst loaded
                @ (case adapter of None \<Rightarrow> [] | Some p \<Rightarrow> [PeftFromPretrained p])
                @ (if \<not> load_8bit self2 then [ModelHalf] else [])
                @ [ModelTo (device self2), ModelEval, GetEvalInput]
      in case evaluate_items w self2 adapter (get_eval_input w) of
           Inl e \<Rightarrow> (self2, evs, Raised e)
         | Inr eval_inputs \<Rightarrow> (self2, evs @ [EvalOutput eval_inputs], Returned))"

section \<open>Notions used to state the properties\<close>

text \<open>
  What one example has become when \<^verbatim>\<open>split_train_data\<close> returns it: merged with its
  tokenized record, the three textual columns removed.
\<close>

definition processed_row :: "llm \<Rightarrow> row \<Rightarrow> row" where
  "processed_row self r =
     filter (\<lambda>kv. fst kv \<notin> set [''input'', ''instruction'', ''output''])
       (dict_update r (written (projr (tokenize_prompt self r))))"

text \<open>The dataset and each of its rows have the columns \<open>names\<close>.\<close>

definition has_columns :: "string list \<Rightarrow> dataset \<Rightarrow> bool" where
  "has_columns names ds =
     (list_all (\<lambda>n. n \<in> set (column_names ds)) names \<and>
      list_all (\<lambda>r. list_all (\<lambda>n. n \<in> fst ` set r) names) (rows ds))"

text \<open>
  \<open>tokenized_from self r row\<close>: \<open>row\<close> is the example \<open>r\<close> tokenized. Its field
  \<^verbatim>\<open>labels\<close> is the first position of the example's \<^verbatim>\<open>output\<close> in the vocabulary,
  every other field of the record the tokenizer returns for the example's \<^verbatim>\<open>input\<close>
  is there as written, the columns \<^verbatim>\<open>input\<close>, \<^verbatim>\<open>instruction\<close> and \<^verbatim>\<open>output\<close>
  are gone, and any further column of the example is kept.
\<close>

definition tokenized_from :: "llm \<Rightarrow> row \<Rightarrow> row \<Rightarrow> bool" where
  "tokenized_from self r row =
     (\<exists>t inp enc out i.
        tokenizer self = Some t \<and> map_of r ''input'' = Some inp \<and> encode t inp = Inr enc
      \<and> map_of r ''output'' = Some out
      \<and> i < length (labels self) \<and> labels self ! i = out
      \<and> (\<forall>j<i. labels self ! j \<noteq> out)
      \<and> (\<forall>k. map_of row k =
                (if k \<in> {''input'', ''instruction'', ''output''} then None
                 else if k = ''labels'' then Some (VInt (int i))
                 else (case map_of enc k of
                         Some v \<Rightarrow> Some (arrow_value v)
                       | None \<Rightarrow> map_of r k))))"

text \<open>The event that layers adapter weights on the base model in \<^verbatim>\<open>generate\<close>.\<close>

fun loads_adapter :: "event \<Rightarrow> bool" where
  "loads_adapter (PeftFromPretrained p) = True"
| "loads_adapter _ = False"

section \<open>A small concrete instance\<close>

text \<open>
  A tokenizer that maps a string to its character codes, three labelled examples, a
  world whose checkpoint directory holds only the adapter file, and a task object with
  the vocabulary \<^verbatim>\<open>["positive", "negative"]\<close>.
\<close>

definition example_tokenizer :: tokenizer where
  "example_tokenizer =
     Tokenizer (\<lambda>v. case v of
        VStr s \<Rightarrow> Inr [(''input_ids'', VInts (map (\<lambda>c. int (of_char c)) s)),
                       (''attention_mask'', VInts (map (\<lambda>c. 1) s))]
      | _ \<Rightarrow> Inl ValueError)"

definition example_row :: "string \<Rightarrow> string \<Rightarrow> row" where
  "example_row inp out =
     [(''instruction'', VStr ''classify''), (''input'', VStr inp), (''output'', VStr out)]"

definition example_dataset :: dataset where
  "example_dataset =
     \<lparr>column_names = [''instruction'', ''input'', ''output''],
      rows = [example_row ''good'' ''positive'', example_row ''bad'' ''negative'',
              example_row ''fine'' ''positive'']\<rparr>"

definition example_llm :: llm where
  "example_llm =
     \<lparr>base_model = ''llama'', load_8bit = False, device_map = ''auto'',
      add_eos_token = False, tokenizer = Some example_tokenizer,
      labels = [VStr ''positive'', VStr ''negative''], val_set_size = 1,
      lora_target_modules = [], model_type = ''llama2'',
      resume_from_checkpoint = CkptPath ''ckpt'',
      per_gpu_train_batch_size = 4, gradient_accumulation_steps = 2, world_size = 1,
      ddp = False, epochs = 3, learning_rate = ''3e-4'', is_fp16 = True,
      logging_steps = 10, output_dir = ''out'', group_by_length = False,
      use_mps_device = False, disable_wandb = True, adapter_weights = ''None'',
      device = ''cuda''\<rparr>"

definition example_world :: world where
  "example_world =
     \<lparr>seeded_permutation = (\<lambda>seed n. rev [0..<n]),
      unseeded_permutation = (\<lambda>k n. [0..<n]),
      path_exists = (\<lambda>p. p = ''ckpt/adapter_model.bin''),
      pretrained_tokenizer = example_tokenizer,
      pad_token_is_none = True,
      auto_device = (\<lambda>s. s),
      load_adapter_config = (\<lambda>s. s),
      load_train_data = (\<lambda>s fromdb iteration. (s, Some [(''train'', example_dataset)])),
      torch_version_at_least_2 = True,
      platform = ''linux'',
      get_eval_input = [[(''input'', VStr ''good'')]],
      argmax_logits = (\<lambda>adapter v. Inr 1)\<rparr>"

section \<open>Tokenization: the label index\<close>

lemma list_index_found:
  "x \<in> set xs \<Longrightarrow>
     \<exists>i. list_index xs x = Inr i \<and> i < length xs \<and> xs ! i = x \<and> (\<forall>j<i. xs ! j \<noteq> x)"
proof (induction xs)
  case Nil
  then show ?case by simp
next
  case (Cons y ys)
  show ?case
  proof (cases "y = x")
    case True
    then show ?thesis by simp
  next
    case False
    with Cons.prems have "x \<in> set ys" by simp
    from Cons.IH [OF this] obtain i where
      i: "list_index ys x = Inr i" "i < length ys" "ys ! i = x" "\<forall>j<i. ys ! j \<noteq> x"
      by blast
    have "\<forall>j<Suc i. (y # ys) ! j \<noteq> x"
      using False i(4) by (auto simp: nth_Cons split: nat.splits)
    with False i show ?thesis by auto
  qed
qed

lemma list_index_absent: "x \<notin> set xs \<Longrightarrow> list_index xs x = Inl ValueError"
  by (induction xs) auto

lemma map_of_update_same: "map_of (AList.update k v al) k = Some v"
  by (simp add: update_conv')

text \<open>
  Claim C1. For an example whose \<^verbatim>\<open>input\<close> the tokenizer accepts and whose
  \<^verbatim>\<open>output\<close> is in the label vocabulary, \<^verbatim>\<open>tokenize_prompt\<close> returns the tokenizer's
  record with the field \<^verbatim>\<open>labels\<close> set to the position of the output in the
  vocabulary (the first one, should the vocabulary repeat a value). With the vocabulary
  \<^verbatim>\<open>["positive", "negative"]\<close> and the output \<^verbatim>\<open>"negative"\<close> that position is 1.
\<close>

theorem tokenize_prompt_label_is_position:
  assumes "map_of data_point ''input'' = Some inp"
    and "tokenizer self = Some t"
    and "encode t inp = Inr tokenize_res"
    and "map_of data_point ''output'' = Some out"
    and "out \<in> set (labels self)"
  shows "\<exists>i. tokenize_prompt self data_point
               = Inr (AList.update ''labels'' (VTensor (int i)) tokenize_res)
            \<and> map_of (AList.update ''labels'' (VTensor (int i)) tokenize_res) ''labels''
               = Some (VTensor (int i))
            \<and> i < length (labels self) \<and> labels self ! i = out
            \<and> (\<forall>j<i. labels self ! j \<noteq> out)
            \<and> (labels self = [VStr ''positive'', VStr ''negative''] \<and> out = VStr ''negative''
                 \<longrightarrow> i = 1)"
proof -
  from list_index_found [OF assms(5)] obtain i where
    i: "list_index (labels self) out = Inr i" "i < length (labels self)"
       "labels self ! i = out" "\<forall>j<i. labels self ! j \<noteq> out"
    by blast
  have scen: "labels self = [VStr ''positive'', VStr ''negative''] \<and> out = VStr ''negative''
                 \<longrightarrow> i = 1"
  proof
    assume a: "labels self = [VStr ''positive'', VStr ''negative''] \<and> out = VStr ''negative''"
    with i(2) have "i < 2" by simp
    moreover have "i \<noteq> 0"
    proof
      assume "i = 0"
      with a i(3) show False by simp
    qed
    ultimately show "i = 1" by simp
  qed
  have "tokenize_prompt self data_point
               = Inr (AList.update ''labels'' (VTensor (int i)) tokenize_res)"
    using assms i(1) by (simp add: tokenize_prompt_def getitem_def)
  with i scen show ?thesis by (auto simp: map_of_update_same)
qed

theorem tokenize_prompt_label_is_position_witness:
  "map_of (example_row ''bad'' ''negative'') ''input'' = Some (VStr ''bad'')
   \<and> tokenizer example_llm = Some example_tokenizer
   \<and> VStr ''negative'' \<in> set (labels example_llm)
   \<and> tokenize_prompt example_llm (example_row ''bad'' ''negative'')
       = Inr [(''input_ids'', VInts [98, 97, 100]), (''attention_mask'', VInts [1, 1, 1]),
              (''labels'', VTensor 1)]"
  using tokenize_prompt_label_is_position
    [of "example_row ''bad'' ''negative''" "VStr ''bad''" example_llm example_tokenizer
        "[(''input_ids'', VInts [98, 97, 100]), (''attention_mask'', VInts [1, 1, 1])]"
        "VStr ''negative''"]
  by (simp add: example_row_def example_llm_def example_tokenizer_def)

section \<open>Permutations, selection and the per-row pipeline\<close>

lemma and_then_Inl [simp]: "and_then (Inl e) f = Inl e"
  by (simp add: and_then_def)

lemma and_then_Inr [simp]: "and_then (Inr x) f = f x"
  by (simp add: and_then_def)

lemma perm_set: "mset p = mset [0..<n] \<Longrightarrow> set p = {0..<n}"
  by (metis mset_eq_setD set_upt)

lemma perm_length: "mset p = mset [0..<n] \<Longrightarrow> length p = n"
  by (metis length_upt mset_eq_length minus_nat.diff_0)

lemma perm_distinct: "mset p = mset [0..<n] \<Longrightarrow> distinct p"
  by (metis distinct_upt mset_eq_imp_distinct_iff)

lemma select_in_range:
  "set p \<subseteq> {0..<length (rows ds)} \<Longrightarrow>
     select p ds = Inr (ds\<lparr>rows := map (\<lambda>i. rows ds ! i) p\<rparr>)"
  by (auto simp: select_def list_all_iff)

lemma mset_map_nth_perm:
  assumes "mset p = mset [0..<length xs]"
  shows "mset (map (\<lambda>i. xs ! i) p) = mset xs"
proof -
  have "mset (map (\<lambda>i. xs ! i) p) = image_mset (\<lambda>i. xs ! i) (mset p)" by simp
  also have "\<dots> = image_mset (\<lambda>i. xs ! i) (mset [0..<length xs])" using assms by simp
  also have "\<dots> = mset (map (\<lambda>i. xs ! i) [0..<length xs])" by simp
  also have "\<dots> = mset xs" by (simp add: map_nth)
  finally show ?thesis .
qed

lemma shuffle_perm:
  assumes "permutations_ok w"
  shows "\<exists>s. shuffle w k ds = Inr s \<and> column_names s = column_names ds
            \<and> mset (rows s) = mset (rows ds)"
proof -
  let ?p = "unseeded_permutation w k (num_rows ds)"
  have p: "mset ?p = mset [0..<length (rows ds)]"
    using assms by (simp add: permutations_ok_def num_rows_def)
  then have "set ?p \<subseteq> {0..<length (rows ds)}" by (simp add: perm_set)
  then have "shuffle w k ds = Inr (ds\<lparr>rows := map (\<lambda>i. rows ds ! i) ?p\<rparr>)"
    by (simp add: shuffle_def select_in_range)
  moreover have "mset (map (\<lambda>i. rows ds ! i) ?p) = mset (rows ds)"
    using p by (rule mset_map_nth_perm)
  ultimately show ?thesis by simp
qed

lemma map_rows_fail:
  "r \<in> set rs \<Longrightarrow> f r = Inl e \<Longrightarrow> \<exists>e'. map_rows f rs = Inl e'"
  by (induction rs) (auto split: sum.splits)

lemma map_rows_ok:
  "\<forall>r\<in>set rs. \<exists>u. f r = Inr u \<Longrightarrow>
     map_rows f rs = Inr (map (\<lambda>r. dict_update r (written (projr (f r)))) rs)"
  by (induction rs) (auto split: sum.splits)

lemma pipeline_fail:
  assumes "permutations_ok w" and "r \<in> set (rows ds)" and "f r = Inl e"
  shows "\<exists>e'. and_then (and_then (shuffle w k ds) (dataset_map f)) g = Inl e'"
proof -
  from shuffle_perm [OF assms(1)] obtain s where
    s: "shuffle w k ds = Inr s" "mset (rows s) = mset (rows ds)" by blast
  from s(2) assms(2) have "r \<in> set (rows s)" by (metis mset_eq_setD)
  from map_rows_fail [of r "rows s" f e, OF this assms(3)]
  obtain e' where "map_rows f (rows s) = Inl e'" ..
  then have "dataset_map f s = Inl e'" by (simp add: dataset_map_def)
  with s(1) show ?thesis by simp
qed

lemma train_test_split_result:
  assumes "permutations_ok w" and "0 < v" and "v < int (num_rows ds)"
  shows "train_test_split w v seed ds =
           Inr (ds\<lparr>rows := map (\<lambda>i. rows ds ! i) (drop (nat v) (seeded_permutation w seed (num_rows ds)))\<rparr>,
                ds\<lparr>rows := map (\<lambda>i. rows ds ! i) (take (nat v) (seeded_permutation w seed (num_rows ds)))\<rparr>)"
proof -
  let ?n = "num_rows ds"
  let ?p = "seeded_permutation w seed ?n"
  have p: "mset ?p = mset [0..<?n]" using assms(1) by (simp add: permutations_ok_def)
  have len: "length ?p = ?n" using p by (rule perm_length)
  have set: "set ?p = {0..<length (rows ds)}" using p by (simp add: perm_set num_rows_def)
  have t: "take (?n - nat v) (drop (nat v) ?p) = drop (nat v) ?p"
    using len by simp
  have "set (drop (nat v) ?p) \<subseteq> {0..<length (rows ds)}"
    using set set_drop_subset by (metis)
  then have a: "select (drop (nat v) ?p) ds = Inr (ds\<lparr>rows := map (\<lambda>i. rows ds ! i) (drop (nat v) ?p)\<rparr>)"
    by (rule select_in_range)
  have "set (take (nat v) ?p) \<subseteq> {0..<length (rows ds)}"
    using set set_take_subset by (metis)
  then have b: "select (take (nat v) ?p) ds = Inr (ds\<lparr>rows := map (\<lambda>i. rows ds ! i) (take (nat v) ?p)\<rparr>)"
    by (rule select_in_range)
  show ?thesis
    using assms(2,3) a b t by (simp add: train_test_split_def Let_def)
qed

lemma train_test_split_cover:
  assumes "permutations_ok w" and "0 < v" and "v < int (num_rows ds)"
    and "train_test_split w v seed ds = Inr (tr, te)"
  shows "mset (rows tr) + mset (rows te) = mset (rows ds)"
proof -
  let ?p = "seeded_permutation w seed (num_rows ds)"
  have p: "mset ?p = mset [0..<length (rows ds)]"
    using assms(1) by (simp add: permutations_ok_def num_rows_def)
  from train_test_split_result [OF assms(1-3), of seed] assms(4)
  have "mset (rows tr) + mset (rows te)
        = mset (map (\<lambda>i. rows ds ! i) (drop (nat v) ?p)) + mset (map (\<lambda>i. rows ds ! i) (take (nat v) ?p))"
    by auto
  also have "\<dots> = mset (map (\<lambda>i. rows ds ! i) (take (nat v) ?p @ drop (nat v) ?p))"
    by (simp only: map_append mset_append add.commute)
  also have "\<dots> = mset (rows ds)"
    by (simp only: append_take_drop_id mset_map_nth_perm [OF p])
  finally show ?thesis .
qed

lemma split_train_data_fail:
  assumes ok: "permutations_ok w" and tr: "map_of data ''train'' = Some d"
    and r: "r \<in> set (rows d)" and f: "tokenize_prompt self r = Inl e"
  shows "\<exists>e'. split_train_data w self data = Inl e'"
proof (cases "val_set_size self > 0")
  case False
  from pipeline_fail [of w r d "tokenize_prompt self" e, OF ok r f] obtain e' where
    "and_then (and_then (shuffle w 0 d) (dataset_map (tokenize_prompt self)))
        (remove_columns [''input'', ''instruction'', ''output'']) = Inl e'" by blast
  with False tr show ?thesis by (simp add: split_train_data_def getitem_def)
next
  case True
  show ?thesis
  proof (cases "train_test_split w (val_set_size self) 42 d")
    case (Inl e')
    with True tr show ?thesis by (simp add: split_train_data_def getitem_def)
  next
    case (Inr tv)
    obtain a b where tv: "tv = (a, b)" by (cases tv)
    have nz: "num_rows d \<noteq> 0" using r by (auto simp: num_rows_def)
    have v: "val_set_size self < int (num_rows d)"
      using Inr True nz by (auto simp: train_test_split_def Let_def split: if_splits)
    from train_test_split_cover [OF ok True v] Inr tv
    have "mset (rows a) + mset (rows b) = mset (rows d)" by simp
    with r have "r \<in># mset (rows a) + mset (rows b)" by simp
    then have rab: "r \<in> set (rows a) \<or> r \<in> set (rows b)" by auto
    let ?g = "remove_columns [''input'', ''instruction'', ''output'']"
    let ?A = "and_then (and_then (shuffle w 0 a) (dataset_map (tokenize_prompt self))) ?g"
    let ?B = "and_then (and_then (shuffle w 1 b) (dataset_map (tokenize_prompt self))) ?g"
    have eq: "split_train_data w self data
               = and_then ?A (\<lambda>train_data. and_then ?B (\<lambda>val_data. Inr (train_data, Some val_data)))"
      using True tr Inr tv by (simp add: split_train_data_def getitem_def)
    show ?thesis
    proof (cases ?A)
      case (Inl e')
      with eq show ?thesis by simp
    next
      case Atr: (Inr train_data)
      have "r \<in> set (rows b)"
      proof (rule ccontr)
        assume "r \<notin> set (rows b)"
        with rab have "r \<in> set (rows a)" by simp
        from pipeline_fail [of w r a "tokenize_prompt self" e 0 ?g, OF ok this f] Atr
        show False by simp
      qed
      from pipeline_fail [of w r b "tokenize_prompt self" e 1 ?g, OF ok this f]
      obtain e' where "?B = Inl e'" by blast
      with eq Atr show ?thesis by simp
    qed
  qed
qed

lemma example_world_permutations_ok: "permutations_ok example_world"
  by (simp add: permutations_ok_def example_world_def)

section \<open>Tokenization: a label outside the vocabulary\<close>

text \<open>
  Claim C2. For an example whose \<^verbatim>\<open>output\<close> is not in the label vocabulary,
  \<^verbatim>\<open>tokenize_prompt\<close> raises: a \<^verbatim>\<open>ValueError\<close> from \<^verbatim>\<open>labels.index\<close> when
  the tokenizer accepted the input. Nothing in the module catches it: with such an
  example among the training rows, \<^verbatim>\<open>split_train_data\<close> raises, and the rest of
  \<^verbatim>\<open>finetune\<close> ends with the error, having made no further call.
\<close>

theorem tokenize_prompt_unknown_label_raises:
  assumes "map_of data_point ''output'' = Some out" and "out \<notin> set (labels self)"
  shows "(\<exists>e. tokenize_prompt self data_point = Inl e)
       \<and> ((\<exists>inp t res. map_of data_point ''input'' = Some inp \<and> tokenizer self = Some t
                \<and> encode t inp = Inr res)
            \<longrightarrow> tokenize_prompt self data_point = Inl ValueError)
       \<and> (permutations_ok w \<and> map_of data ''train'' = Some d \<and> data_point \<in> set (rows d)
            \<longrightarrow> (\<exists>e. split_train_data w self data = Inl e)
              \<and> (\<exists>e. finetune_run w self (Some data) = (self, [], Raised e)))"
proof -
  have idx: "list_index (labels self) out = Inl ValueError"
    using assms(2) by (rule list_index_absent)
  have fail: "\<exists>e. tokenize_prompt self data_point = Inl e"
    using assms(1) idx
    by (auto simp: tokenize_prompt_def getitem_def split: option.splits sum.splits)
  have ve: "(\<exists>inp t res. map_of data_point ''input'' = Some inp \<and> tokenizer self = Some t
                \<and> encode t inp = Inr res)
            \<longrightarrow> tokenize_prompt self data_point = Inl ValueError"
    using assms(1) idx by (auto simp: tokenize_prompt_def getitem_def)
  have propagates: "permutations_ok w \<and> map_of data ''train'' = Some d \<and> data_point \<in> set (rows d)
            \<longrightarrow> (\<exists>e. split_train_data w self data = Inl e)
              \<and> (\<exists>e. finetune_run w self (Some data) = (self, [], Raised e))"
  proof
    assume a: "permutations_ok w \<and> map_of data ''train'' = Some d \<and> data_point \<in> set (rows d)"
    from fail obtain e where e: "tokenize_prompt self data_point = Inl e" ..
    from a split_train_data_fail [of w data d data_point self e] e
    obtain e' where e': "split_train_data w self data = Inl e'" by blast
    from a have "data \<noteq> []" by auto
    with e' have "finetune_run w self (Some data) = (self, [], Raised e')"
      by (simp add: finetune_run_def)
    with e' show "(\<exists>e. split_train_data w self data = Inl e)
              \<and> (\<exists>e. finetune_run w self (Some data) = (self, [], Raised e))" by blast
  qed
  from fail ve propagates show ?thesis by blast
qed

theorem tokenize_prompt_unknown_label_raises_witness:
  "map_of (example_row ''so-so'' ''neutral'') ''output'' = Some (VStr ''neutral'')
   \<and> VStr ''neutral'' \<notin> set (labels example_llm)
   \<and> tokenize_prompt example_llm (example_row ''so-so'' ''neutral'') = Inl ValueError
   \<and> (\<exists>e. split_train_data example_world example_llm
             [(''train'', example_dataset\<lparr>rows := [example_row ''so-so'' ''neutral'']\<rparr>)]
           = Inl e)"
  using tokenize_prompt_unknown_label_raises
    [of "example_row ''so-so'' ''neutral''" "VStr ''neutral''" example_llm example_world
        "[(''train'', example_dataset\<lparr>rows := [example_row ''so-so'' ''neutral'']\<rparr>)]"
        "example_dataset\<lparr>rows := [example_row ''so-so'' ''neutral'']\<rparr>"]
    example_world_permutations_ok
  by (simp add: example_row_def example_llm_def example_tokenizer_def)

section \<open>Tokenization: what the result depends on\<close>

lemma map_of_update_other: "k' \<noteq> k \<Longrightarrow> map_of (AList.update k v al) k' = map_of al k'"
  by (simp add: update_conv')

text \<open>
  Claim C9. The record \<^verbatim>\<open>tokenize_prompt\<close> returns is determined by the fields
  \<^verbatim>\<open>input\<close> and \<^verbatim>\<open>output\<close> of the example: changing \<^verbatim>\<open>instruction\<close> (or any
  other column) changes nothing. Two examples with the same \<^verbatim>\<open>input\<close> get the same
  token ids (every field of the record but \<^verbatim>\<open>labels\<close>), and two with the same
  \<^verbatim>\<open>output\<close> the same label index.
\<close>

theorem tokenize_prompt_ignores_instruction:
  "(map_of dp1 ''input'' = map_of dp2 ''input'' \<and> map_of dp1 ''output'' = map_of dp2 ''output''
      \<longrightarrow> tokenize_prompt self dp1 = tokenize_prompt self dp2)
   \<and> tokenize_prompt self (AList.update ''instruction'' v dp) = tokenize_prompt self dp
   \<and> (map_of dp1 ''input'' = map_of dp2 ''input''
        \<and> tokenize_prompt self dp1 = Inr r1 \<and> tokenize_prompt self dp2 = Inr r2
      \<longrightarrow> (\<forall>k. k \<noteq> ''labels'' \<longrightarrow> map_of r1 k = map_of r2 k))
   \<and> (map_of dp1 ''output'' = map_of dp2 ''output''
        \<and> tokenize_prompt self dp1 = Inr r1 \<and> tokenize_prompt self dp2 = Inr r2
      \<longrightarrow> map_of r1 ''labels'' = map_of r2 ''labels'')"
proof -
  have a: "map_of dp1 ''input'' = map_of dp2 ''input'' \<and> map_of dp1 ''output'' = map_of dp2 ''output''
      \<longrightarrow> tokenize_prompt self dp1 = tokenize_prompt self dp2"
    unfolding tokenize_prompt_def getitem_def
    by (auto split: option.splits sum.splits)
  have b: "tokenize_prompt self (AList.update ''instruction'' v dp) = tokenize_prompt self dp"
    unfolding tokenize_prompt_def getitem_def
    by (auto simp: map_of_update_other split: option.splits sum.splits)
  have c: "map_of dp1 ''input'' = map_of dp2 ''input''
        \<and> tokenize_prompt self dp1 = Inr r1 \<and> tokenize_prompt self dp2 = Inr r2
      \<longrightarrow> (\<forall>k. k \<noteq> ''labels'' \<longrightarrow> map_of r1 k = map_of r2 k)"
    by (auto simp: tokenize_prompt_def getitem_def map_of_update_other
             split: option.splits sum.splits)
  have d: "map_of dp1 ''output'' = map_of dp2 ''output''
        \<and> tokenize_prompt self dp1 = Inr r1 \<and> tokenize_prompt self dp2 = Inr r2
      \<longrightarrow> map_of r1 ''labels'' = map_of r2 ''labels''"
    by (auto simp: tokenize_prompt_def getitem_def map_of_update_same
             split: option.splits sum.splits)
  from a b c d show ?thesis by blast
qed

theorem tokenize_prompt_ignores_instruction_witness:
  "tokenize_prompt example_llm
     (AList.update ''instruction'' (VStr ''translate'') (example_row ''bad'' ''negative''))
   = tokenize_prompt example_llm (example_row ''bad'' ''negative'')
   \<and> tokenize_prompt example_llm (example_row ''bad'' ''negative'')
     = Inr [(''input_ids'', VInts [98, 97, 100]), (''attention_mask'', VInts [1, 1, 1]),
            (''labels'', VTensor 1)]"
  using tokenize_prompt_ignores_instruction
    [of "example_row ''bad'' ''negative''" "example_row ''bad'' ''negative''" example_llm
        "VStr ''translate''" "example_row ''bad'' ''negative''"]
  by (simp add: example_row_def example_llm_def example_tokenizer_def tokenize_prompt_def
        getitem_def)

section \<open>Splitting: no validation set\<close>

lemma keys_dict_update: "fst ` set r \<subseteq> fst ` set (dict_update r u)"
proof -
  have "fst ` set r \<subseteq> fst ` set (fold (\<lambda>(k, v). AList.update k v) u r)"
  proof (induction u arbitrary: r)
    case Nil
    show ?case by simp
  next
    case (Cons kv u)
    obtain k v where kv: "kv = (k, v)" by (cases kv)
    have "fst ` set r \<subseteq> fst ` set (AList.update k v r)"
      by (auto simp: dom_update)
    also have "\<dots> \<subseteq> fst ` set (fold (\<lambda>(k, v). AList.update k v) u (AList.update k v r))"
      by (rule Cons.IH)
    finally show ?case by (simp add: kv)
  qed
  then show ?thesis by (simp add: dict_update_def)
qed

lemma pipeline_ok:
  assumes ok: "permutations_ok w"
    and tok: "\<forall>r\<in>set (rows ds). \<exists>u. f r = Inr u"
    and cols: "has_columns names ds"
  shows "\<exists>s t. shuffle w k ds = Inr s \<and> mset (rows s) = mset (rows ds)
      \<and> and_then (and_then (shuffle w k ds) (dataset_map f)) (remove_columns names) = Inr t
      \<and> rows t = map (\<lambda>r. filter (\<lambda>kv. fst kv \<notin> set names) (dict_update r (written (projr (f r)))))
                   (rows s)
      \<and> (\<forall>c\<in>set names. c \<notin> set (column_names t))"
proof -
  from shuffle_perm [OF ok, of k ds] obtain s where
    s: "shuffle w k ds = Inr s" "column_names s = column_names ds"
       "mset (rows s) = mset (rows ds)" by blast
  have sets: "set (rows s) = set (rows ds)" using s(3) by (rule mset_eq_setD)
  let ?m = "map (\<lambda>r. dict_update r (written (projr (f r)))) (rows s)"
  let ?cn = "case ?m of [] \<Rightarrow> column_names s | r # _ \<Rightarrow> map fst r"
  have "\<forall>r\<in>set (rows s). \<exists>u. f r = Inr u" using tok sets by simp
  then have "map_rows f (rows s) = Inr ?m" by (rule map_rows_ok)
  then have dm: "dataset_map f s = Inr \<lparr>column_names = ?cn, rows = ?m\<rparr>"
    by (simp add: dataset_map_def)
  have incn: "\<forall>n\<in>set names. n \<in> set ?cn"
  proof (cases "rows s")
    case Nil
    with cols s(2) show ?thesis by (simp add: has_columns_def list_all_iff)
  next
    case (Cons r0 rs)
    then have "r0 \<in> set (rows ds)" using sets by auto
    with cols have "\<forall>n\<in>set names. n \<in> fst ` set r0"
      by (simp add: has_columns_def list_all_iff)
    with keys_dict_update [of r0 "written (projr (f r0))"]
    have "\<forall>n\<in>set names. n \<in> fst ` set (dict_update r0 (written (projr (f r0))))" by blast
    with Cons show ?thesis by simp
  qed
  let ?t = "\<lparr>column_names = filter (\<lambda>c. c \<notin> set names) ?cn,
             rows = map (filter (\<lambda>kv. fst kv \<notin> set names)) ?m\<rparr>"
  have rc: "remove_columns names \<lparr>column_names = ?cn, rows = ?m\<rparr> = Inr ?t"
    using incn by (simp add: remove_columns_def list_all_iff)
  have "and_then (and_then (shuffle w k ds) (dataset_map f)) (remove_columns names) = Inr ?t"
    using s(1) dm rc by simp
  moreover have "rows ?t = map (\<lambda>r. filter (\<lambda>kv. fst kv \<notin> set names)
                     (dict_update r (written (projr (f r))))) (rows s)"
    by simp
  moreover have "\<forall>c\<in>set names. c \<notin> set (column_names ?t)" by simp
  ultimately show ?thesis using s(1,3) by blast
qed

lemma map_of_filter_out: "c \<in> S \<Longrightarrow> map_of (filter (\<lambda>kv. fst kv \<notin> S) r) c = None"
  by (induction r) auto

lemma example_rows_tokenize:
  "\<forall>r\<in>set (rows example_dataset). \<exists>u. tokenize_prompt example_llm r = Inr u"
  by (simp add: example_dataset_def example_row_def example_llm_def example_tokenizer_def
        tokenize_prompt_def getitem_def)

lemma example_dataset_columns:
  "has_columns [''input'', ''instruction'', ''output''] example_dataset"
  by (simp add: has_columns_def example_dataset_def example_row_def)

lemma list_index_Inr:
  assumes "list_index xs x = Inr i"
  shows "i < length xs \<and> xs ! i = x \<and> (\<forall>j<i. xs ! j \<noteq> x)"
proof -
  have "x \<in> set xs"
  proof (rule ccontr)
    assume "x \<notin> set xs"
    then have "list_index xs x = Inl ValueError" by (rule list_index_absent)
    with assms show False by simp
  qed
  from list_index_found [OF this] assms show ?thesis by auto
qed

lemma map_of_fold_update:
  "distinct (map fst u) \<Longrightarrow>
     map_of (fold (\<lambda>(k, v). AList.update k v) u d) k
       = (case map_of u k of Some v \<Rightarrow> Some v | None \<Rightarrow> map_of d k)"
proof (induction u arbitrary: d)
  case Nil
  show ?case by simp
next
  case (Cons kv u)
  obtain k0 v0 where kv: "kv = (k0, v0)" by (cases kv)
  from Cons.prems kv have d: "distinct (map fst u)" and n: "k0 \<notin> fst ` set u" by auto
  from n have none: "map_of u k0 = None" by (simp add: map_of_eq_None_iff)
  show ?case
    using Cons.IH [OF d, of "AList.update k0 v0 d"] none
    by (auto simp: kv update_conv' split: option.splits)
qed

lemma map_of_dict_update:
  "distinct (map fst u) \<Longrightarrow>
     map_of (dict_update d u) k
       = (case map_of u k of Some v \<Rightarrow> Some v | None \<Rightarrow> map_of d k)"
  by (simp add: dict_update_def map_of_fold_update)

lemma map_fst_written: "map fst (written u) = map fst u"
  by (induction u) (auto simp: written_def)

lemma map_of_written: "map_of (written u) k = map_option arrow_value (map_of u k)"
  by (induction u) (auto simp: written_def)

lemma map_of_filter_keys:
  "map_of (filter (\<lambda>kv. fst kv \<notin> S) r) k = (if k \<in> S then None else map_of r k)"
  by (induction r) auto

lemma processed_row_tokenized:
  assumes tp: "tokenize_prompt self r = Inr u" and dist: "distinct (map fst u)"
  shows "tokenized_from self r (processed_row self r)"
proof -
  from tp obtain inp t enc out i where
    p: "map_of r ''input'' = Some inp" "tokenizer self = Some t" "encode t inp = Inr enc"
       "map_of r ''output'' = Some out" "list_index (labels self) out = Inr i"
    and u: "u = AList.update ''labels'' (VTensor (int i)) enc"
    by (auto simp: tokenize_prompt_def getitem_def split: option.splits sum.splits)
  from list_index_Inr [OF p(5)] have pos:
    "i < length (labels self)" "labels self ! i = out" "\<forall>j<i. labels self ! j \<noteq> out"
    by simp_all
  have mu: "map_of (written u) k
             = (if k = ''labels'' then Some (VInt (int i))
                else map_option arrow_value (map_of enc k))" for k
    by (simp add: map_of_written u update_conv')
  have dw: "distinct (map fst (written u))" using dist by (simp add: map_fst_written)
  have "map_of (processed_row self r) k =
          (if k \<in> {''input'', ''instruction'', ''output''} then None
           else if k = ''labels'' then Some (VInt (int i))
           else (case map_of enc k of
                   Some v \<Rightarrow> Some (arrow_value v)
                 | None \<Rightarrow> map_of r k))" for k
  proof -
    have "map_of (processed_row self r) k =
        (if k \<in> set [''input'', ''instruction'', ''output''] then None
         else map_of (dict_update r (written u)) k)"
      unfolding processed_row_def tp sum.sel by (rule map_of_filter_keys)
    also have "map_of (dict_update r (written u)) k
        = (case map_of (written u) k of Some v \<Rightarrow> Some v | None \<Rightarrow> map_of r k)"
      using dw by (rule map_of_dict_update)
    finally show ?thesis
      by (auto simp: mu split: option.splits)
  qed
  with p(1-4) pos show ?thesis unfolding tokenized_from_def by blast
qed

lemma example_rows_tokenize_dict:
  "\<forall>r\<in>set (rows example_dataset).
      \<exists>u. tokenize_prompt (example_llm\<lparr>val_set_size := 0\<rparr>) r = Inr u \<and> distinct (map fst u)"
  by (simp add: example_dataset_def example_row_def example_llm_def example_tokenizer_def
        tokenize_prompt_def getitem_def)

lemma example_shuffle: "shuffle example_world 0 example_dataset = Inr example_dataset"
  by code_simp

lemma example_whole:
  "split_train_data example_world (example_llm\<lparr>val_set_size := 0\<rparr>)
      [(''train'', example_dataset)]
   = Inr (\<lparr>column_names = [''input_ids'', ''attention_mask'', ''labels''],
           rows =
             [[(''input_ids'', VInts [103, 111, 111, 100]),
               (''attention_mask'', VInts [1, 1, 1, 1]), (''labels'', VInt 0)],
              [(''input_ids'', VInts [98, 97, 100]),
               (''attention_mask'', VInts [1, 1, 1]), (''labels'', VInt 1)],
              [(''input_ids'', VInts [102, 105, 110, 101]),
               (''attention_mask'', VInts [1, 1, 1, 1]), (''labels'', VInt 0)]]\<rparr>,
         None)"
  by code_simp

text \<open>
  Claim C7. With a validation-set size of zero, on training data whose examples all
  tokenize (to a dictionary: no key twice), \<^verbatim>\<open>split_train_data\<close> returns no
  validation data, and as training data the shuffled rows, each tokenized: row by row,
  the field \<^verbatim>\<open>labels\<close> holds the position of the example's output in the vocabulary
  and the other fields are those the tokenizer returns for the example's input; every
  example of the input is there exactly once; none of the columns \<^verbatim>\<open>input\<close>,
  \<^verbatim>\<open>instruction\<close>, \<^verbatim>\<open>output\<close> is left in the schema or in a row.
\<close>

theorem split_train_data_without_validation:
  assumes "val_set_size self = 0"
    and "permutations_ok w"
    and "map_of data ''train'' = Some d"
    and "has_columns [''input'', ''instruction'', ''output''] d"
    and "\<forall>r\<in>set (rows d). \<exists>u. tokenize_prompt self r = Inr u \<and> distinct (map fst u)"
  shows "\<exists>s train_data.
           split_train_data w self data = Inr (train_data, None)
         \<and> shuffle w 0 d = Inr s \<and> mset (rows s) = mset (rows d)
         \<and> list_all2 (tokenized_from self) (rows s) (rows train_data)
         \<and> rows train_data = map (processed_row self) (rows s)
         \<and> mset (rows train_data) = image_mset (processed_row self) (mset (rows d))
         \<and> num_rows train_data = num_rows d
         \<and> (\<forall>c\<in>{''input'', ''instruction'', ''output''}.
               c \<notin> set (column_names train_data)
             \<and> (\<forall>r\<in>set (rows train_data). map_of r c = None))"
proof -
  let ?names = "[''input'', ''instruction'', ''output'']"
  have tok: "\<forall>r\<in>set (rows d). \<exists>u. tokenize_prompt self r = Inr u" using assms(5) by blast
  from pipeline_ok [OF assms(2) tok assms(4), of 0] obtain s t where
    st: "shuffle w 0 d = Inr s" "mset (rows s) = mset (rows d)"
        "and_then (and_then (shuffle w 0 d) (dataset_map (tokenize_prompt self)))
           (remove_columns ?names) = Inr t"
        "rows t = map (\<lambda>r. filter (\<lambda>kv. fst kv \<notin> set ?names)
                     (dict_update r (written (projr (tokenize_prompt self r))))) (rows s)"
        "\<forall>c\<in>set ?names. c \<notin> set (column_names t)"
    by blast
  have rows_t: "rows t = map (processed_row self) (rows s)"
    using st(4) by (simp add: processed_row_def)
  have split: "split_train_data w self data = Inr (t, None)"
    using assms(1,3) st(3) by (simp add: split_train_data_def getitem_def)
  have ms: "mset (rows t) = image_mset (processed_row self) (mset (rows d))"
    using rows_t st(2) by simp
  have n: "num_rows t = num_rows d"
    using ms by (metis num_rows_def size_image_mset size_mset)
  have sets: "set (rows s) = set (rows d)" using st(2) by (rule mset_eq_setD)
  have each: "tokenized_from self r (processed_row self r)" if "r \<in> set (rows s)" for r
  proof -
    from that sets assms(5) obtain u where
      "tokenize_prompt self r = Inr u" "distinct (map fst u)" by blast
    then show ?thesis by (rule processed_row_tokenized)
  qed
  have all2: "list_all2 (tokenized_from self) (rows s) (rows t)"
    unfolding rows_t using each by (simp add: list_all2_conv_all_nth)
  have gone: "\<forall>c\<in>{''input'', ''instruction'', ''output''}.
               c \<notin> set (column_names t) \<and> (\<forall>r\<in>set (rows t). map_of r c = None)"
  proof
    fix c assume c: "c \<in> {''input'', ''instruction'', ''output''}"
    then have c': "c \<in> set ?names" by simp
    have one: "map_of (processed_row self r0) c = None" for r0
      unfolding processed_row_def using c' by (rule map_of_filter_out)
    have "\<forall>r\<in>set (rows t). map_of r c = None"
      unfolding rows_t using one by auto
    with st(5) c' show "c \<notin> set (column_names t) \<and> (\<forall>r\<in>set (rows t). map_of r c = None)"
      by blast
  qed
  from split st(1,2) all2 rows_t ms n gone show ?thesis by blast
qed

theorem split_train_data_without_validation_witness:
  "split_train_data example_world (example_llm\<lparr>val_set_size := 0\<rparr>)
      [(''train'', example_dataset)]
   = Inr (\<lparr>column_names = [''input_ids'', ''attention_mask'', ''labels''],
           rows =
             [[(''input_ids'', VInts [103, 111, 111, 100]),
               (''attention_mask'', VInts [1, 1, 1, 1]), (''labels'', VInt 0)],
              [(''input_ids'', VInts [98, 97, 100]),
               (''attention_mask'', VInts [1, 1, 1]), (''labels'', VInt 1)],
              [(''input_ids'', VInts [102, 105, 110, 101]),
               (''attention_mask'', VInts [1, 1, 1, 1]), (''labels'', VInt 0)]]\<rparr>,
         None)
   \<and> list_all2 (tokenized_from (example_llm\<lparr>val_set_size := 0\<rparr>))
       [example_row ''good'' ''positive'', example_row ''bad'' ''negative'',
        example_row ''fine'' ''positive'']
       [[(''input_ids'', VInts [103, 111, 111, 100]),
         (''attention_mask'', VInts [1, 1, 1, 1]), (''labels'', VInt 0)],
        [(''input_ids'', VInts [98, 97, 100]),
         (''attention_mask'', VInts [1, 1, 1]), (''labels'', VInt 1)],
        [(''input_ids'', VInts [102, 105, 110, 101]),
         (''attention_mask'', VInts [1, 1, 1, 1]), (''labels'', VInt 0)]]"
proof -
  have v: "val_set_size (example_llm\<lparr>val_set_size := 0\<rparr>) = 0" by simp
  have tr: "map_of [(''train'', example_dataset)] ''train'' = Some example_dataset" by simp
  from split_train_data_without_validation
    [OF v example_world_permutations_ok tr example_dataset_columns example_rows_tokenize_dict]
  obtain s train_data where
    a: "split_train_data example_world (example_llm\<lparr>val_set_size := 0\<rparr>)
          [(''train'', example_dataset)] = Inr (train_data, None)"
    and b: "shuffle example_world 0 example_dataset = Inr s"
    and c: "list_all2 (tokenized_from (example_llm\<lparr>val_set_size := 0\<rparr>))
              (rows s) (rows train_data)"
    by blast
  from b have s: "s = example_dataset" by (simp add: example_shuffle)
  from a have t: "train_data = \<lparr>column_names = [''input_ids'', ''attention_mask'', ''labels''],
           rows =
             [[(''input_ids'', VInts [103, 111, 111, 100]),
               (''attention_mask'', VInts [1, 1, 1, 1]), (''labels'', VInt 0)],
              [(''input_ids'', VInts [98, 97, 100]),
               (''attention_mask'', VInts [1, 1, 1]), (''labels'', VInt 1)],
              [(''input_ids'', VInts [102, 105, 110, 101]),
               (''attention_mask'', VInts [1, 1, 1, 1]), (''labels'', VInt 0)]]\<rparr>"
    by (simp add: example_whole)
  from c have "list_all2 (tokenized_from (example_llm\<lparr>val_set_size := 0\<rparr>))
       [example_row ''good'' ''positive'', example_row ''bad'' ''negative'',
        example_row ''fine'' ''positive'']
       [[(''input_ids'', VInts [103, 111, 111, 100]),
         (''attention_mask'', VInts [1, 1, 1, 1]), (''labels'', VInt 0)],
        [(''input_ids'', VInts [98, 97, 100]),
         (''attention_mask'', VInts [1, 1, 1]), (''labels'', VInt 1)],
        [(''input_ids'', VInts [102, 105, 110, 101]),
         (''attention_mask'', VInts [1, 1, 1, 1]), (''labels'', VInt 0)]]"
    unfolding s t by (simp add: example_dataset_def)
  with example_whole show ?thesis by blast
qed

section \<open>Splitting: train and validation\<close>

lemma has_columns_subset:
  assumes "has_columns names ds" and "set rs \<subseteq> set (rows ds)"
  shows "has_columns names (ds\<lparr>rows := rs\<rparr>)"
  using assms by (auto simp: has_columns_def list_all_iff)

lemma split_train_data_core:
  assumes v: "0 < val_set_size self" "val_set_size self < int (num_rows d)"
    and ok: "permutations_ok w"
    and tr: "map_of data ''train'' = Some d"
    and cols: "has_columns [''input'', ''instruction'', ''output''] d"
    and tok: "\<forall>r\<in>set (rows d). \<exists>u. tokenize_prompt self r = Inr u"
  shows "\<exists>train_data val_data.
           split_train_data w self data = Inr (train_data, Some val_data)
         \<and> mset (rows train_data)
             = image_mset (\<lambda>i. processed_row self (rows d ! i))
                 (mset (drop (nat (val_set_size self)) (seeded_permutation w 42 (num_rows d))))
         \<and> mset (rows val_data)
             = image_mset (\<lambda>i. processed_row self (rows d ! i))
                 (mset (take (nat (val_set_size self)) (seeded_permutation w 42 (num_rows d))))"
proof -
  let ?names = "[''input'', ''instruction'', ''output'']"
  let ?k = "nat (val_set_size self)"
  let ?p = "seeded_permutation w 42 (num_rows d)"
  let ?a = "d\<lparr>rows := map (\<lambda>i. rows d ! i) (drop ?k ?p)\<rparr>"
  let ?b = "d\<lparr>rows := map (\<lambda>i. rows d ! i) (take ?k ?p)\<rparr>"
  have p: "mset ?p = mset [0..<num_rows d]" using ok by (simp add: permutations_ok_def)
  then have setp: "set ?p = {0..<length (rows d)}" by (simp add: perm_set num_rows_def)
  have tts: "train_test_split w (val_set_size self) 42 d = Inr (?a, ?b)"
    using ok v by (rule train_test_split_result)
  have suba: "set (rows ?a) \<subseteq> set (rows d)"
    using setp set_drop_subset [of ?k ?p] by auto
  have subb: "set (rows ?b) \<subseteq> set (rows d)"
    using setp set_take_subset [of ?k ?p] by auto
  have ca: "has_columns ?names ?a"
    using cols suba has_columns_subset [of ?names d "rows ?a"] by simp
  have cb: "has_columns ?names ?b"
    using cols subb has_columns_subset [of ?names d "rows ?b"] by simp
  have ta: "\<forall>r\<in>set (rows ?a). \<exists>u. tokenize_prompt self r = Inr u" using tok suba by blast
  have tb: "\<forall>r\<in>set (rows ?b). \<exists>u. tokenize_prompt self r = Inr u" using tok subb by blast
  from pipeline_ok [OF ok ta ca, of 0] obtain sa t where
    A0: "shuffle w 0 ?a = Inr sa" and
    A: "mset (rows sa) = mset (rows ?a)"
       "and_then (and_then (shuffle w 0 ?a) (dataset_map (tokenize_prompt self)))
           (remove_columns ?names) = Inr t"
       "rows t = map (\<lambda>r. filter (\<lambda>kv. fst kv \<notin> set ?names)
                     (dict_update r (written (projr (tokenize_prompt self r))))) (rows sa)"
       and A4: "\<forall>c\<in>set ?names. c \<notin> set (column_names t)"
    by (elim exE conjE) (rule that)
  from pipeline_ok [OF ok tb cb, of 1] obtain sb u where
    B0: "shuffle w 1 ?b = Inr sb" and
    B: "mset (rows sb) = mset (rows ?b)"
       "and_then (and_then (shuffle w 1 ?b) (dataset_map (tokenize_prompt self)))
           (remove_columns ?names) = Inr u"
       "rows u = map (\<lambda>r. filter (\<lambda>kv. fst kv \<notin> set ?names)
                     (dict_update r (written (projr (tokenize_prompt self r))))) (rows sb)"
       and B4: "\<forall>c\<in>set ?names. c \<notin> set (column_names u)"
    by (elim exE conjE) (rule that)
  have split: "split_train_data w self data = Inr (t, Some u)"
    using v(1) tr tts A(2) B(2) by (simp add: split_train_data_def getitem_def)
  have "rows t = map (processed_row self) (rows sa)"
    using A(3) by (simp add: processed_row_def)
  then have "mset (rows t) = image_mset (processed_row self) (mset (rows sa))"
    by simp
  also have "\<dots> = image_mset (processed_row self) (mset (rows ?a))" using A(1) by simp
  also have "\<dots> = image_mset (\<lambda>i. processed_row self (rows d ! i)) (mset (drop ?k ?p))"
    by (simp add: multiset.map_comp comp_def)
  finally have mt: "mset (rows t)
      = image_mset (\<lambda>i. processed_row self (rows d ! i)) (mset (drop ?k ?p))" .
  have "rows u = map (processed_row self) (rows sb)"
    using B(3) by (simp add: processed_row_def)
  then have "mset (rows u) = image_mset (processed_row self) (mset (rows sb))"
    by simp
  also have "\<dots> = image_mset (processed_row self) (mset (rows ?b))" using B(1) by simp
  also have "\<dots> = image_mset (\<lambda>i. processed_row self (rows d ! i)) (mset (take ?k ?p))"
    by (simp add: multiset.map_comp comp_def)
  finally have mu: "mset (rows u)
      = image_mset (\<lambda>i. processed_row self (rows d ! i)) (mset (take ?k ?p))" .
  from split mt mu show ?thesis by blast
qed

text \<open>
  A validation-set size that leaves no training row is refused by the library, unless the
  dataset has no rows at all: then both parts are the empty dataset.
\<close>

lemma train_test_split_too_large:
  "0 < num_rows ds \<Longrightarrow> int (num_rows ds) \<le> v \<Longrightarrow>
     train_test_split w v seed ds = Inl ValueError"
  by (simp add: train_test_split_def Let_def)

lemma train_test_split_no_rows:
  "num_rows ds = 0 \<Longrightarrow> train_test_split w v seed ds = Inr (ds, ds)"
  by (simp add: train_test_split_def Let_def)

text \<open>
  Claim C8. With a validation-set size \<open>v\<close> greater than zero (and smaller than the
  number of rows, as the library demands), on training data whose examples all tokenize,
  \<^verbatim>\<open>split_train_data\<close> returns the rows at the first \<open>v\<close> indices of the permutation
  drawn with seed 42 as validation data and the rows at the remaining indices as training
  data: the two index sets are disjoint and cover all rows, the sizes add up to the row
  count, and every example is in exactly one part. A second run on the same data, whose
  generator for seed 42 draws the same permutation, returns the same two parts (the
  order of the rows within a part is that of the unseeded shuffle and may differ).
\<close>

theorem split_train_data_partition:
  assumes v: "0 < val_set_size self" "val_set_size self < int (num_rows d)"
    and ok: "permutations_ok w"
    and tr: "map_of data ''train'' = Some d"
    and cols: "has_columns [''input'', ''instruction'', ''output''] d"
    and tok: "\<forall>r\<in>set (rows d). \<exists>u. tokenize_prompt self r = Inr u"
  shows "\<exists>train_data val_data test_indices train_indices.
           split_train_data w self data = Inr (train_data, Some val_data)
         \<and> test_indices = take (nat (val_set_size self)) (seeded_permutation w 42 (num_rows d))
         \<and> train_indices = drop (nat (val_set_size self)) (seeded_permutation w 42 (num_rows d))
         \<and> mset (rows train_data)
             = image_mset (\<lambda>i. processed_row self (rows d ! i)) (mset train_indices)
         \<and> mset (rows val_data)
             = image_mset (\<lambda>i. processed_row self (rows d ! i)) (mset test_indices)
         \<and> distinct train_indices \<and> distinct test_indices
         \<and> set train_indices \<inter> set test_indices = {}
         \<and> set train_indices \<union> set test_indices = {0..<num_rows d}
         \<and> num_rows val_data = nat (val_set_size self)
         \<and> num_rows train_data + num_rows val_data = num_rows d
         \<and> mset (rows train_data) + mset (rows val_data)
             = image_mset (processed_row self) (mset (rows d))
         \<and> (\<forall>w'. permutations_ok w' \<and> seeded_permutation w' = seeded_permutation w
               \<longrightarrow> (\<exists>train_data' val_data'.
                      split_train_data w' self data = Inr (train_data', Some val_data')
                    \<and> mset (rows train_data') = mset (rows train_data)
                    \<and> mset (rows val_data') = mset (rows val_data)))"
proof -
  let ?k = "nat (val_set_size self)"
  let ?p = "seeded_permutation w 42 (num_rows d)"
  let ?T = "\<lambda>i. processed_row self (rows d ! i)"
  from split_train_data_core [OF v ok tr cols tok] obtain t u where
    tu: "split_train_data w self data = Inr (t, Some u)"
        "mset (rows t) = image_mset ?T (mset (drop ?k ?p))"
        "mset (rows u) = image_mset ?T (mset (take ?k ?p))"
    by blast
  have p: "mset ?p = mset [0..<num_rows d]" using ok by (simp add: permutations_ok_def)
  have dist: "distinct ?p" using p by (rule perm_distinct)
  have len: "length ?p = num_rows d" using p by (rule perm_length)
  have setp: "set ?p = {0..<num_rows d}" using p by (rule perm_set)
  have d1: "distinct (drop ?k ?p)" "distinct (take ?k ?p)" using dist by simp_all
  have disj: "set (drop ?k ?p) \<inter> set (take ?k ?p) = {}"
    using dist set_take_disj_set_drop_if_distinct [of ?p ?k ?k] by auto
  have cover: "set (drop ?k ?p) \<union> set (take ?k ?p) = {0..<num_rows d}"
    using setp set_append [of "take ?k ?p" "drop ?k ?p"] by auto
  have nu: "num_rows u = ?k"
  proof -
    have "size (mset (rows u)) = size (mset (take ?k ?p))" using tu(3) by simp
    then have "length (rows u) = length (take ?k ?p)" by (simp only: size_mset)
    with len v(2) show ?thesis by (simp add: num_rows_def)
  qed
  have nt: "num_rows t = num_rows d - ?k"
  proof -
    have "size (mset (rows t)) = size (mset (drop ?k ?p))" using tu(2) by simp
    then have "length (rows t) = length (drop ?k ?p)" by (simp only: size_mset)
    with len show ?thesis by (simp add: num_rows_def)
  qed
  have total: "num_rows t + num_rows u = num_rows d" using nt nu v(2) by simp
  have "mset (rows t) + mset (rows u) = image_mset ?T (mset (take ?k ?p @ drop ?k ?p))"
    using tu(2,3) by (simp only: mset_append image_mset_union add.commute)
  also have "\<dots> = image_mset ?T (mset [0..<length (rows d)])"
    using p by (simp only: append_take_drop_id num_rows_def)
  also have "\<dots> = image_mset (processed_row self) (mset (map (\<lambda>i. rows d ! i) [0..<length (rows d)]))"
    by (simp add: multiset.map_comp comp_def)
  also have "\<dots> = image_mset (processed_row self) (mset (rows d))"
    by (simp only: map_nth)
  finally have whole: "mset (rows t) + mset (rows u)
      = image_mset (processed_row self) (mset (rows d))" .
  have again: "\<forall>w'. permutations_ok w' \<and> seeded_permutation w' = seeded_permutation w
               \<longrightarrow> (\<exists>train_data' val_data'.
                      split_train_data w' self data = Inr (train_data', Some val_data')
                    \<and> mset (rows train_data') = mset (rows t)
                    \<and> mset (rows val_data') = mset (rows u))"
  proof (intro allI impI)
    fix w' assume a: "permutations_ok w' \<and> seeded_permutation w' = seeded_permutation w"
    then have ok': "permutations_ok w'" and same: "seeded_permutation w' = seeded_permutation w"
      by simp_all
    from split_train_data_core [OF v ok' tr cols tok] obtain t' u' where
      "split_train_data w' self data = Inr (t', Some u')"
      "mset (rows t') = image_mset ?T (mset (drop ?k (seeded_permutation w' 42 (num_rows d))))"
      "mset (rows u') = image_mset ?T (mset (take ?k (seeded_permutation w' 42 (num_rows d))))"
      by blast
    with same tu(2,3) show "\<exists>train_data' val_data'.
                      split_train_data w' self data = Inr (train_data', Some val_data')
                    \<and> mset (rows train_data') = mset (rows t)
                    \<and> mset (rows val_data') = mset (rows u)" by simp
  qed
  from tu d1 disj cover nu total whole again show ?thesis by blast
qed

theorem split_train_data_partition_witness:
  "\<exists>train_data val_data.
      split_train_data example_world example_llm [(''train'', example_dataset)]
        = Inr (train_data, Some val_data)
    \<and> num_rows val_data = 1
    \<and> num_rows train_data + num_rows val_data = 3"
proof -
  have n: "num_rows example_dataset = 3" by (simp add: num_rows_def example_dataset_def)
  have v0: "0 < val_set_size example_llm" by (simp add: example_llm_def)
  have v1: "val_set_size example_llm < int (num_rows example_dataset)"
    by (simp add: example_llm_def n)
  have k: "nat (val_set_size example_llm) = 1" by (simp add: example_llm_def)
  have tr: "map_of [(''train'', example_dataset)] ''train'' = Some example_dataset" by simp
  from split_train_data_partition
    [OF v0 v1 example_world_permutations_ok tr example_dataset_columns example_rows_tokenize]
  show ?thesis unfolding n k by blast
qed

section \<open>The step schedule\<close>

lemma round_half_even_cases:
  assumes "0 < y"
  shows "round_half_even x y = x div y
       \<or> (round_half_even x y = x div y + 1 \<and> y \<le> 2 * (x mod y))"
  by (auto simp: round_half_even_def Let_def)

lemma round_half_even_scaled:
  assumes a: "0 \<le> a" and P: "8 \<le> P"
  shows "round_half_even (a * P) 10 div P = a div 10"
proof -
  define k where "k = a div 10"
  define j where "j = a mod 10"
  define K where "K = k * P"
  define JP where "JP = j * P"
  define q where "q = (a * P) div 10"
  define r where "r = (a * P) mod 10"
  define m where "m = round_half_even (a * P) 10"
  have aj: "a = 10 * k + j" by (simp add: k_def j_def)
  have j: "0 \<le> j" "j \<le> 9" by (simp_all add: j_def) 
  have x: "a * P = 10 * K + JP" by (simp add: aj K_def JP_def algebra_simps)
  have JP: "0 \<le> JP" "JP \<le> 9 * P"
    using j P by (simp_all add: JP_def mult_right_mono)
  have qr: "a * P = 10 * q + r" "0 \<le> r" "r < 10" by (simp_all add: q_def r_def)
  have m: "m = q \<or> (m = q + 1 \<and> 10 \<le> 2 * r)"
    using round_half_even_cases [of 10 "a * P"] by (simp add: m_def q_def r_def)
  have lo: "K \<le> m" using m x qr JP by arith
  have hi: "m < K + P" using m x qr JP P by arith
  have "m div P = k"
  proof (rule int_div_pos_eq [of m P k "m - K"])
    show "m = P * k + (m - K)" by (simp add: K_def mult.commute)
    show "0 \<le> m - K" using lo by simp
    show "m - K < P" using hi by simp
  qed
  then show ?thesis by (simp add: m_def k_def)
qed

lemma bitlen_10: "bitlen 10 = 4"
proof -
  have "bitlen 10 \<le> 4" by (simp add: bitlen_le_iff_power)
  moreover have "\<not> bitlen 10 \<le> 3" by (simp add: bitlen_le_iff_power)
  ultimately show ?thesis by simp
qed

lemma int_of_truediv_10_small:
  assumes "0 \<le> a" and "a < 2 ^ 53"
  shows "int_of_truediv a 10 = Inr (a div 10)"
proof (cases "a = 0")
  case True
  then show ?thesis by (simp add: int_of_truediv_def)
next
  case False
  with assms(1) have pos: "0 < a" by simp
  define L where "L = floor_log2_ratio a 10"
  define s where "s = nat (52 - L)"
  define m where "m = round_half_even (a * 2 ^ s) 10"
  have b1: "1 \<le> bitlen a" using pos bitlen_eq_zero_iff [of a] bitlen_nonneg [of a] by arith
  have b53: "bitlen a \<le> 53" using assms(2) by (simp add: bitlen_le_iff_power)
  have Ld: "L = bitlen a - 4 \<or> L = bitlen a - 4 - 1"
    unfolding L_def floor_log2_ratio_def Let_def bitlen_10 by (rule if_split [THEN iffD2]) simp
  have L: "L \<le> 49" "- 4 \<le> L"
    using b1 b53 Ld by arith+
  have e: "nat (L - 52) = 0" "nat (- (L - 52)) = s" using L by (simp_all add: s_def)
  have s: "3 \<le> s" "s \<le> 56" using L by (simp_all add: s_def)
  have P8: "(8::int) \<le> 2 ^ s"
  proof -
    have "(2::int) ^ 3 \<le> 2 ^ s" using s(1) by (rule power_increasing) simp
    then show ?thesis by simp
  qed
  have md: "m div 2 ^ s = a div 10"
    unfolding m_def using assms(1) P8 by (rule round_half_even_scaled)
  have "m < (a div 10 + 1) * 2 ^ s"
  proof -
    have "m < (m div 2 ^ s + 1) * 2 ^ s"
    proof -
      define D R where "D = m div 2 ^ s" and "R = m mod 2 ^ s"
      have "m = 2 ^ s * D + R" by (simp add: D_def R_def)
      moreover have "R < 2 ^ s" using P8 by (simp add: R_def)
      moreover have "(D + 1) * 2 ^ s = 2 ^ s * D + 2 ^ s" by (simp add: algebra_simps)
      ultimately have "m < (D + 1) * 2 ^ s" by linarith
      then show ?thesis by (simp only: D_def)
    qed
    then show ?thesis by (simp add: md)
  qed
  also have "\<dots> \<le> 2 ^ 53 * 2 ^ s"
    using assms by (intro mult_right_mono) auto
  also have "\<dots> \<le> (2::int) ^ 53 * 2 ^ 56"
    using s(2) by (intro mult_left_mono power_increasing) auto
  also have "\<dots> < 2 ^ 1024" by simp
  finally have small: "\<not> 2 ^ 1024 \<le> m" by simp
  have "int_of_truediv a 10 = Inr (sgn a * sgn 10 * (m * 2 ^ nat (L - 52) div 2 ^ nat (- (L - 52))))"
    using False small e
    by (simp only: int_of_truediv_def Let_def L_def [symmetric] m_def [symmetric] e
          abs_of_pos [OF pos] abs_numeral power_0 mult_1_right if_False numeral_neq_zero)
  then show ?thesis using pos md e by simp
qed

lemma step_schedule_resume [simp]:
  "step_schedule (self\<lparr>resume_from_checkpoint := r\<rparr>) n = step_schedule self n"
  by (simp add: step_schedule_def)

lemma train_args_resume [simp]:
  "train_args (self\<lparr>resume_from_checkpoint := r\<rparr>) sch = train_args self sch"
  by (simp add: train_args_def)

lemma finetune_run_training_arguments:
  assumes "data \<noteq> []"
    and "split_train_data w self data = Inr (train_data, val_data)"
    and "step_schedule self (num_rows train_data) = Inr sch"
  shows "TrainingArguments (train_args self sch)
           \<in> set (fst (snd (finetune_run w self (Some data))))"
  using assms by (simp add: finetune_run_def Let_def)

text \<open>
  Outside these bounds the schedule is another one: a zero effective batch size raises
  \<^verbatim>\<open>ZeroDivisionError\<close>; \<^verbatim>\<open>int\<close> truncates towards zero, which is not the floor
  of a negative quotient; and from \<open>2 ^ 53\<close> on the floating-point quotient may round up
  to the next integer.
\<close>

lemma step_schedule_zero_batch:
  assumes "per_gpu_train_batch_size self * gradient_accumulation_steps self
             * (if ddp self then world_size self else 1) = 0"
  shows "step_schedule self n_rows = Inl ZeroDivisionError"
  using assms by (simp add: step_schedule_def Let_def)

lemma int_of_truediv_beyond_2_53:
  "int_of_truediv 45035996273704969 10 = Inr 4503599627370497"
  "45035996273704969 div 10 = (4503599627370496 :: int)"
  by code_simp+

lemma int_of_truediv_negative: "int_of_truediv (- 13) 10 = Inr (- 1)"
  by code_simp

text \<open>
  Claim C5. For positive batch size and accumulation steps (and a positive world size
  when training is distributed) and fewer than \<open>2 ^ 53\<close> rows, \<^verbatim>\<open>finetune\<close> computes:
  the effective batch size as per-device batch size times gradient accumulation steps,
  times the world size only when \<^verbatim>\<open>ddp\<close> is set; the total optimizer steps as the
  row count floor-divided by the effective batch size; the warmup steps and the save and
  evaluation cadence as the floor of a tenth of the total steps, which is what the
  training arguments receive. With batch 4, accumulation 2, no \<^verbatim>\<open>ddp\<close> and 100 rows:
  effective batch 8, 12 steps, warmup and save cadence 1.
\<close>

theorem step_schedule_values:
  assumes "0 < per_gpu_train_batch_size self"
    and "0 < gradient_accumulation_steps self"
    and "ddp self \<longrightarrow> 0 < world_size self"
    and "n_rows < 2 ^ 53"
  shows "\<exists>sch. step_schedule self n_rows = Inr sch
     \<and> total_batch_size sch
         = per_gpu_train_batch_size self * gradient_accumulation_steps self
           * (if ddp self then world_size self else 1)
     \<and> total_optim_steps sch = int n_rows div total_batch_size sch
     \<and> warmup_steps sch = total_optim_steps sch div 10
     \<and> saving_step sch = total_optim_steps sch div 10
     \<and> arg_warmup_steps (train_args self sch) = total_optim_steps sch div 10
     \<and> arg_save_steps (train_args self sch) = total_optim_steps sch div 10
     \<and> arg_eval_steps (train_args self sch)
         = (if val_set_size self > 0 then Some (total_optim_steps sch div 10) else None)
     \<and> (per_gpu_train_batch_size self = 4 \<and> gradient_accumulation_steps self = 2
          \<and> \<not> ddp self \<and> n_rows = 100
        \<longrightarrow> total_batch_size sch = 8 \<and> total_optim_steps sch = 12
          \<and> warmup_steps sch = 1 \<and> saving_step sch = 1)
     \<and> (data \<noteq> [] \<and> split_train_data w self data = Inr (train_data, val_data)
          \<and> num_rows train_data = n_rows
        \<longrightarrow> TrainingArguments (train_args self sch)
              \<in> set (fst (snd (finetune_run w self (Some data)))))"
proof -
  define tbs where "tbs = per_gpu_train_batch_size self * gradient_accumulation_steps self
           * (if ddp self then world_size self else 1)"
  define tos where "tos = int n_rows div tbs"
  have tbs: "0 < tbs" using assms(1-3) by (simp add: tbs_def)
  have tos0: "0 \<le> tos" using tbs by (simp add: tos_def pos_imp_zdiv_nonneg_iff)
  have "tos \<le> int n_rows" using tbs unfolding tos_def
    by (metis of_nat_0_le_iff zdiv_mono2 div_by_1 int_one_le_iff_zero_less zero_less_one)
  also have "\<dots> < 2 ^ 53" using assms(4) by (metis of_nat_less_iff of_nat_numeral of_nat_power)
  finally have tos53: "tos < 2 ^ 53" .
  have td: "int_of_truediv tos 10 = Inr (tos div 10)"
    using tos0 tos53 by (rule int_of_truediv_10_small)
  define sch where "sch = \<lparr>total_batch_size = tbs, total_optim_steps = tos,
                   saving_step = tos div 10, warmup_steps = tos div 10\<rparr>"
  have ss: "step_schedule self n_rows = Inr sch"
    using tbs td by (simp add: step_schedule_def Let_def tbs_def [symmetric]
        tos_def [symmetric] sch_def)
  have scen: "per_gpu_train_batch_size self = 4 \<and> gradient_accumulation_steps self = 2
          \<and> \<not> ddp self \<and> n_rows = 100
        \<longrightarrow> total_batch_size sch = 8 \<and> total_optim_steps sch = 12
          \<and> warmup_steps sch = 1 \<and> saving_step sch = 1"
    by (simp add: sch_def tos_def tbs_def)
  have fields: "total_batch_size sch = tbs" "total_optim_steps sch = tos"
    "warmup_steps sch = tos div 10" "saving_step sch = tos div 10"
    by (simp_all add: sch_def)
  have args: "arg_warmup_steps (train_args self sch) = tos div 10"
    "arg_save_steps (train_args self sch) = tos div 10"
    "arg_eval_steps (train_args self sch)
         = (if val_set_size self > 0 then Some (tos div 10) else None)"
    by (simp_all add: train_args_def sch_def)
  have run: "data \<noteq> [] \<and> split_train_data w self data = Inr (train_data, val_data)
          \<and> num_rows train_data = n_rows
        \<longrightarrow> TrainingArguments (train_args self sch)
              \<in> set (fst (snd (finetune_run w self (Some data))))"
    using ss finetune_run_training_arguments [of data w self train_data val_data sch]
    by blast
  show ?thesis
    using ss scen args run unfolding fields tos_def [symmetric]
    by (intro exI [of _ sch]) (simp add: fields tbs_def tos_def)
qed

theorem step_schedule_values_witness:
  "\<exists>sch. step_schedule example_llm 100 = Inr sch
     \<and> total_batch_size sch = 8 \<and> total_optim_steps sch = 12
     \<and> warmup_steps sch = 1 \<and> saving_step sch = 1"
proof -
  have h: "0 < per_gpu_train_batch_size example_llm"
    "0 < gradient_accumulation_steps example_llm"
    "ddp example_llm \<longrightarrow> 0 < world_size example_llm"
    "(100::nat) < 2 ^ 53"
    by (simp_all add: example_llm_def)
  have c: "per_gpu_train_batch_size example_llm = 4 \<and> gradient_accumulation_steps example_llm = 2
          \<and> \<not> ddp example_llm \<and> (100::nat) = 100"
    by (simp add: example_llm_def)
  from step_schedule_values [OF h] c show ?thesis by blast
qed

section \<open>Fine-tuning: empty training data\<close>








section \<open>Fine-tuning: checkpoint resolution\<close>

lemma finetune_run_reaches_trainer:
  assumes "data \<noteq> []"
    and "split_train_data w self data = Inr (train_data, val_data)"
    and "step_schedule self (num_rows train_data) = Inr sch"
  shows "\<exists>evs1 evs2.
           finetune_run w self (Some data)
             = (self\<lparr>resume_from_checkpoint := fst (resolve_checkpoint w (resume_from_checkpoint self))\<rparr>,
                snd (resolve_checkpoint w (resume_from_checkpoint self)) @ evs1
                  @ [TrainerTrain (fst (resolve_checkpoint w (resume_from_checkpoint self)))]
                  @ evs2,
                Returned)
         \<and> (\<forall>r. TrainerTrain r \<notin> set evs1 \<and> TrainerTrain r \<notin> set evs2)"
proof -
  let ?self' = "self\<lparr>resume_from_checkpoint := fst (resolve_checkpoint w (resume_from_checkpoint self))\<rparr>"
  let ?evs1 = "[TrainingArguments (train_args ?self' sch),
                Trainer train_data val_data (train_args ?self' sch), SetUseCache False]
               @ (if torch_version_at_least_2 w \<and> platform w \<noteq> ''win32''
                  then [TorchCompile] else [])"
  let ?evs2 = "[SavePretrained (output_dir ?self'),
                Print (CHR 0x0A # '' If there'' @ CHR 0x27
                       # ''s a warning about missing keys above, please disregard :)'')]"
  have "finetune_run w self (Some data)
          = (?self', snd (resolve_checkpoint w (resume_from_checkpoint self)) @ ?evs1
               @ [TrainerTrain (fst (resolve_checkpoint w (resume_from_checkpoint self)))]
               @ ?evs2, Returned)"
    using assms by (simp add: finetune_run_def Let_def)
  moreover have "\<forall>r. TrainerTrain r \<notin> set ?evs1 \<and> TrainerTrain r \<notin> set ?evs2" by simp
  ultimately show ?thesis by blast
qed

lemma resolve_checkpoint_no_train: "TrainerTrain r \<notin> set (snd (resolve_checkpoint w c))"
  by (auto simp: resolve_checkpoint_def Let_def split: ckpt.splits)

lemma example_split:
  "split_train_data example_world example_llm [(''train'', example_dataset)]
   = Inr (\<lparr>column_names = [''input_ids'', ''attention_mask'', ''labels''],
         rows =
           [[(''input_ids'', VInts [98, 97, 100]),
             (''attention_mask'', VInts [1, 1, 1]),
             (''labels'', VInt 1)],
            [(''input_ids'', VInts [103, 111, 111, 100]),
             (''attention_mask'', VInts [1, 1, 1, 1]),
             (''labels'', VInt 0)]]\<rparr>,
      Some
       \<lparr>column_names = [''input_ids'', ''attention_mask'', ''labels''],
          rows =
            [[(''input_ids'', VInts [102, 105, 110, 101]),
              (''attention_mask'', VInts [1, 1, 1, 1]),
              (''labels'', VInt 0)]]\<rparr>)"
  by code_simp

lemma example_schedule:
  "step_schedule example_llm 2
    = Inr \<lparr>total_batch_size = 8, total_optim_steps = 0, saving_step = 0, warmup_steps = 0\<rparr>"
  by (simp add: step_schedule_def example_llm_def int_of_truediv_def)


lemma example_split_rows:
  "num_rows \<lparr>column_names = [''input_ids'', ''attention_mask'', ''labels''],
         rows =
           [[(''input_ids'', VInts [98, 97, 100]),
             (''attention_mask'', VInts [1, 1, 1]),
             (''labels'', VInt 1)],
            [(''input_ids'', VInts [103, 111, 111, 100]),
             (''attention_mask'', VInts [1, 1, 1, 1]),
             (''labels'', VInt 0)]]\<rparr> = 2"
  by (simp add: num_rows_def)

text \<open>With neither file in the directory the miss is printed and nothing is loaded.\<close>

lemma resolve_checkpoint_no_file:
  assumes "dir \<noteq> []"
    and "\<not> path_exists w (path_join dir ''pytorch_model.bin'')"
    and "\<not> path_exists w (path_join dir ''adapter_model.bin'')"
  shows "resolve_checkpoint w (CkptPath dir)
           = (CkptFalse,
              [Print (''Checkpoint '' @ path_join dir ''adapter_model.bin'' @ '' not found'')])"
  using assms by (simp add: resolve_checkpoint_def Let_def)

text \<open>
  Claim C4. When resumption is configured and the checkpoint directory holds
  \<^verbatim>\<open>adapter_model.bin\<close> but no \<^verbatim>\<open>pytorch_model.bin\<close>, checkpoint resolution sets
  \<^verbatim>\<open>self.resume_from_checkpoint\<close> to \<^verbatim>\<open>False\<close> and loads the adapter file into the
  model (\<^verbatim>\<open>torch.load\<close>, then \<^verbatim>\<open>set_peft_model_state_dict\<close>); a run that reaches
  the trainer passes it \<^verbatim>\<open>False\<close> as the checkpoint to resume from.
\<close>

theorem adapter_only_checkpoint:
  assumes "resume_from_checkpoint self = CkptPath dir" and "dir \<noteq> []"
    and "\<not> path_exists w (path_join dir ''pytorch_model.bin'')"
    and "path_exists w (path_join dir ''adapter_model.bin'')"
  shows "resolve_checkpoint w (resume_from_checkpoint self)
           = (CkptFalse,
              [Print (''Restarting from '' @ path_join dir ''adapter_model.bin''),
               TorchLoad (path_join dir ''adapter_model.bin''),
               SetPeftModelStateDict (path_join dir ''adapter_model.bin'')])
       \<and> (data \<noteq> [] \<and> split_train_data w self data = Inr (train_data, val_data)
            \<and> step_schedule self (num_rows train_data) = Inr sch
          \<longrightarrow> (\<exists>self' evs.
                 finetune_run w self (Some data) = (self', evs, Returned)
               \<and> resume_from_checkpoint self' = CkptFalse
               \<and> TrainerTrain CkptFalse \<in> set evs
               \<and> (\<forall>r. TrainerTrain r \<in> set evs \<longrightarrow> r = CkptFalse)
               \<and> TorchLoad (path_join dir ''adapter_model.bin'') \<in> set evs
               \<and> SetPeftModelStateDict (path_join dir ''adapter_model.bin'') \<in> set evs))"
proof -
  have res: "resolve_checkpoint w (resume_from_checkpoint self)
           = (CkptFalse,
              [Print (''Restarting from '' @ path_join dir ''adapter_model.bin''),
               TorchLoad (path_join dir ''adapter_model.bin''),
               SetPeftModelStateDict (path_join dir ''adapter_model.bin'')])"
    using assms by (simp add: resolve_checkpoint_def Let_def)
  have run: "data \<noteq> [] \<and> split_train_data w self data = Inr (train_data, val_data)
            \<and> step_schedule self (num_rows train_data) = Inr sch
          \<longrightarrow> (\<exists>self' evs.
                 finetune_run w self (Some data) = (self', evs, Returned)
               \<and> resume_from_checkpoint self' = CkptFalse
               \<and> TrainerTrain CkptFalse \<in> set evs
               \<and> (\<forall>r. TrainerTrain r \<in> set evs \<longrightarrow> r = CkptFalse)
               \<and> TorchLoad (path_join dir ''adapter_model.bin'') \<in> set evs
               \<and> SetPeftModelStateDict (path_join dir ''adapter_model.bin'') \<in> set evs)"
  proof
    assume a: "data \<noteq> [] \<and> split_train_data w self data = Inr (train_data, val_data)
            \<and> step_schedule self (num_rows train_data) = Inr sch"
    from a finetune_run_reaches_trainer [of data w self train_data val_data sch]
    obtain evs1 evs2 where
      r: "finetune_run w self (Some data)
             = (self\<lparr>resume_from_checkpoint := fst (resolve_checkpoint w (resume_from_checkpoint self))\<rparr>,
                snd (resolve_checkpoint w (resume_from_checkpoint self)) @ evs1
                  @ [TrainerTrain (fst (resolve_checkpoint w (resume_from_checkpoint self)))]
                  @ evs2,
                Returned)"
      and n: "\<forall>r. TrainerTrain r \<notin> set evs1 \<and> TrainerTrain r \<notin> set evs2"
      by blast
    show "\<exists>self' evs.
                 finetune_run w self (Some data) = (self', evs, Returned)
               \<and> resume_from_checkpoint self' = CkptFalse
               \<and> TrainerTrain CkptFalse \<in> set evs
               \<and> (\<forall>r. TrainerTrain r \<in> set evs \<longrightarrow> r = CkptFalse)
               \<and> TorchLoad (path_join dir ''adapter_model.bin'') \<in> set evs
               \<and> SetPeftModelStateDict (path_join dir ''adapter_model.bin'') \<in> set evs"
      using r n unfolding res by auto
  qed
  from res run show ?thesis by blast
qed

theorem adapter_only_checkpoint_witness:
  "resume_from_checkpoint example_llm = CkptPath ''ckpt''
   \<and> path_exists example_world ''ckpt/adapter_model.bin''
   \<and> \<not> path_exists example_world ''ckpt/pytorch_model.bin''
   \<and> resolve_checkpoint example_world (resume_from_checkpoint example_llm)
       = (CkptFalse,
          [Print ''Restarting from ckpt/adapter_model.bin'',
           TorchLoad ''ckpt/adapter_model.bin'',
           SetPeftModelStateDict ''ckpt/adapter_model.bin''])
   \<and> (\<exists>self' evs.
         finetune_run example_world example_llm (Some [(''train'', example_dataset)])
           = (self', evs, Returned)
       \<and> resume_from_checkpoint self' = CkptFalse
       \<and> TrainerTrain CkptFalse \<in> set evs
       \<and> SetPeftModelStateDict ''ckpt/adapter_model.bin'' \<in> set evs)"
proof -
  have j: "path_join ''ckpt'' ''adapter_model.bin'' = ''ckpt/adapter_model.bin''"
    "path_join ''ckpt'' ''pytorch_model.bin'' = ''ckpt/pytorch_model.bin''"
    by (simp_all add: path_join_def)
  have h: "resume_from_checkpoint example_llm = CkptPath ''ckpt''" "''ckpt'' \<noteq> []"
    "\<not> path_exists example_world (path_join ''ckpt'' ''pytorch_model.bin'')"
    "path_exists example_world (path_join ''ckpt'' ''adapter_model.bin'')"
    by (simp_all add: example_llm_def example_world_def j)
  have d: "[(''train'', example_dataset)] \<noteq> []" by simp
  note t = adapter_only_checkpoint [OF h, where data = "[(''train'', example_dataset)]"]
  from t [THEN conjunct1]
  have r: "resolve_checkpoint example_world (resume_from_checkpoint example_llm)
       = (CkptFalse,
          [Print ''Restarting from ckpt/adapter_model.bin'',
           TorchLoad ''ckpt/adapter_model.bin'',
           SetPeftModelStateDict ''ckpt/adapter_model.bin''])"
    by (simp add: j)
  from t [THEN conjunct2, rule_format, OF conjI [OF d conjI [OF example_split]]]
    example_schedule [folded example_split_rows]
  have "\<exists>self' evs.
         finetune_run example_world example_llm (Some [(''train'', example_dataset)])
           = (self', evs, Returned)
       \<and> resume_from_checkpoint self' = CkptFalse
       \<and> TrainerTrain CkptFalse \<in> set evs
       \<and> SetPeftModelStateDict ''ckpt/adapter_model.bin'' \<in> set evs"
    unfolding j by blast
  with r h(1) h(3,4) [unfolded j] show ?thesis by blast
qed

lemma finetune_run_train_event:
  assumes "TrainerTrain x \<in> set (fst (snd (finetune_run w self data)))"
  shows "x = fst (resolve_checkpoint w (resume_from_checkpoint self))"
  using assms resolve_checkpoint_no_train [of x w "resume_from_checkpoint self"]
  by (auto simp: finetune_run_def Let_def split: if_splits sum.splits prod.splits)

lemma setup_events_no_train:
  "TrainerTrain x \<notin> set (fst (snd (finetune_setup w self fromdb iteration)))"
  by (simp add: finetune_setup_def Let_def get_model_tokenizer_def)

lemma truthy_resolve_checkpoint:
  "truthy (fst (resolve_checkpoint w r))
     \<longleftrightarrow> (\<exists>dir. r = CkptPath dir \<and> dir \<noteq> []
                \<and> path_exists w (path_join dir ''pytorch_model.bin''))"
  by (cases r) (auto simp: resolve_checkpoint_def Let_def)

text \<open>
  Claim C10. The value checkpoint resolution leaves in \<^verbatim>\<open>self.resume_from_checkpoint\<close>
  is truthy exactly when the configured value was truthy (a non-empty directory path) and
  \<^verbatim>\<open>pytorch_model.bin\<close> exists in that directory. It is the value every call of
  \<^verbatim>\<open>trainer.train\<close> in \<^verbatim>\<open>finetune\<close> receives as \<^verbatim>\<open>resume_from_checkpoint\<close>, and a
  run whose data splits and whose schedule is computed makes that call.
\<close>

theorem trainer_resume_argument:
  "(truthy (fst (resolve_checkpoint w r))
      \<longleftrightarrow> truthy r \<and> (\<exists>dir. r = CkptPath dir
                          \<and> path_exists w (path_join dir ''pytorch_model.bin'')))
   \<and> (\<forall>x. TrainerTrain x \<in> set (fst (snd (finetune w self fromdb iteration)))
        \<longrightarrow> x = fst (resolve_checkpoint w
                   (resume_from_checkpoint (fst (finetune_setup w self fromdb iteration))))
          \<and> (truthy x
              \<longleftrightarrow> truthy (resume_from_checkpoint (fst (finetune_setup w self fromdb iteration)))
                \<and> (\<exists>dir. resume_from_checkpoint (fst (finetune_setup w self fromdb iteration))
                            = CkptPath dir
                         \<and> path_exists w (path_join dir ''pytorch_model.bin''))))
   \<and> (data \<noteq> [] \<and> split_train_data w s data = Inr (train_data, val_data)
        \<and> step_schedule s (num_rows train_data) = Inr sch
      \<longrightarrow> TrainerTrain (fst (resolve_checkpoint w (resume_from_checkpoint s)))
            \<in> set (fst (snd (finetune_run w s (Some data)))))"
proof -
  have a: "truthy (fst (resolve_checkpoint w r))
      \<longleftrightarrow> truthy r \<and> (\<exists>dir. r = CkptPath dir
                          \<and> path_exists w (path_join dir ''pytorch_model.bin''))" for r
    unfolding truthy_resolve_checkpoint by (cases r) auto
  let ?S = "fst (finetune_setup w self fromdb iteration)"
  have b: "\<forall>x. TrainerTrain x \<in> set (fst (snd (finetune w self fromdb iteration)))
        \<longrightarrow> x = fst (resolve_checkpoint w (resume_from_checkpoint ?S))
          \<and> (truthy x
              \<longleftrightarrow> truthy (resume_from_checkpoint ?S)
                \<and> (\<exists>dir. resume_from_checkpoint ?S = CkptPath dir
                         \<and> path_exists w (path_join dir ''pytorch_model.bin'')))"
  proof (intro allI impI)
    fix x assume "TrainerTrain x \<in> set (fst (snd (finetune w self fromdb iteration)))"
    then have "TrainerTrain x \<in> set (fst (snd (finetune_run w ?S
                 (snd (snd (finetune_setup w self fromdb iteration))))))"
      using setup_events_no_train [of x w self fromdb iteration]
      by (simp add: finetune_def Let_def)
    then have x: "x = fst (resolve_checkpoint w (resume_from_checkpoint ?S))"
      by (rule finetune_run_train_event)
    show "x = fst (resolve_checkpoint w (resume_from_checkpoint ?S))
          \<and> (truthy x
              \<longleftrightarrow> truthy (resume_from_checkpoint ?S)
                \<and> (\<exists>dir. resume_from_checkpoint ?S = CkptPath dir
                         \<and> path_exists w (path_join dir ''pytorch_model.bin'')))"
      unfolding x using a [of "resume_from_checkpoint ?S"] by simp
  qed
  have c: "data \<noteq> [] \<and> split_train_data w s data = Inr (train_data, val_data)
        \<and> step_schedule s (num_rows train_data) = Inr sch
      \<longrightarrow> TrainerTrain (fst (resolve_checkpoint w (resume_from_checkpoint s)))
            \<in> set (fst (snd (finetune_run w s (Some data))))"
  proof
    assume h: "data \<noteq> [] \<and> split_train_data w s data = Inr (train_data, val_data)
        \<and> step_schedule s (num_rows train_data) = Inr sch"
    from h finetune_run_reaches_trainer [of data w s train_data val_data sch]
    obtain evs1 evs2 where
      "finetune_run w s (Some data)
             = (s\<lparr>resume_from_checkpoint := fst (resolve_checkpoint w (resume_from_checkpoint s))\<rparr>,
                snd (resolve_checkpoint w (resume_from_checkpoint s)) @ evs1
                  @ [TrainerTrain (fst (resolve_checkpoint w (resume_from_checkpoint s)))]
                  @ evs2,
                Returned)"
      by blast
    then show "TrainerTrain (fst (resolve_checkpoint w (resume_from_checkpoint s)))
            \<in> set (fst (snd (finetune_run w s (Some data))))" by simp
  qed
  from a [of r] b c show ?thesis by blast
qed

theorem trainer_resume_argument_witness:
  "truthy (fst (resolve_checkpoint
      (example_world\<lparr>path_exists := (\<lambda>p. p = ''ckpt/pytorch_model.bin'')\<rparr>)
      (CkptPath ''ckpt'')))
   \<and> \<not> truthy (fst (resolve_checkpoint example_world (CkptPath ''ckpt'')))
   \<and> \<not> truthy (fst (resolve_checkpoint example_world CkptNone))
   \<and> TrainerTrain CkptFalse
       \<in> set (fst (snd (finetune_run example_world example_llm
                          (Some [(''train'', example_dataset)]))))"
proof -
  have j: "path_join ''ckpt'' ''pytorch_model.bin'' = ''ckpt/pytorch_model.bin''"
    by (simp add: path_join_def)
  let ?w = "example_world\<lparr>path_exists := (\<lambda>p. p = ''ckpt/pytorch_model.bin'')\<rparr>"
  have a: "truthy (fst (resolve_checkpoint ?w (CkptPath ''ckpt'')))"
    using trainer_resume_argument [of ?w "CkptPath ''ckpt''", THEN conjunct1]
    by (simp add: j)
  have b: "\<not> truthy (fst (resolve_checkpoint example_world (CkptPath ''ckpt'')))"
    using trainer_resume_argument [of example_world "CkptPath ''ckpt''", THEN conjunct1]
    by (simp add: j example_world_def)
  have c: "\<not> truthy (fst (resolve_checkpoint example_world CkptNone))"
    using trainer_resume_argument [of example_world CkptNone, THEN conjunct1]
    by simp
  have d: "[(''train'', example_dataset)] \<noteq> []" by simp
  have r: "fst (resolve_checkpoint example_world (resume_from_checkpoint example_llm))
            = CkptFalse"
    by (simp add: resolve_checkpoint_def Let_def example_llm_def example_world_def
          path_join_def)
  from trainer_resume_argument
    [where w = example_world and s = example_llm and data = "[(''train'', example_dataset)]",
     THEN conjunct2, THEN conjunct2, rule_format, OF conjI [OF d conjI [OF example_split]]]
    example_schedule [folded example_split_rows]
  have "TrainerTrain (fst (resolve_checkpoint example_world (resume_from_checkpoint example_llm)))
       \<in> set (fst (snd (finetune_run example_world example_llm
                          (Some [(''train'', example_dataset)]))))"
    by blast
  with a b c show ?thesis unfolding r by blast
qed

section \<open>Batch inference: the adapter sentinel\<close>

text \<open>
  Claim C6, as amended. \<^verbatim>\<open>generate\<close> skips \<^verbatim>\<open>PeftModel.from_pretrained\<close> exactly
  when the configured adapter path is the string \<^verbatim>\<open>"None"\<close>, capital N; for every other
  path the adapter at that path is layered on the base model, once.
\<close>

theorem generate_adapter_sentinel:
  "(list_ex loads_adapter (fst (snd (generate w self)))
      \<longleftrightarrow> adapter_weights (auto_device w self) \<noteq> ''None'')
   \<and> filter loads_adapter (fst (snd (generate w self)))
       = (if adapter_weights (auto_device w self) = ''None'' then []
          else [PeftFromPretrained (adapter_weights (auto_device w self))])"
proof -
  have f: "filter loads_adapter (fst (snd (generate w self)))
       = (if adapter_weights (auto_device w self) = ''None'' then []
          else [PeftFromPretrained (adapter_weights (auto_device w self))])"
    by (simp add: generate_def Let_def get_model_tokenizer_def split: sum.splits)
  have "list_ex loads_adapter (fst (snd (generate w self)))
      \<longleftrightarrow> filter loads_adapter (fst (snd (generate w self))) \<noteq> []"
    by (simp add: list_ex_iff filter_empty_conv)
  with f show ?thesis by simp
qed

theorem generate_adapter_sentinel_witness:
  "adapter_weights (auto_device example_world example_llm) = ''None''
   \<and> \<not> list_ex loads_adapter (fst (snd (generate example_world example_llm)))
   \<and> list_ex loads_adapter
       (fst (snd (generate example_world (example_llm\<lparr>adapter_weights := ''lora-out''\<rparr>))))"
  using generate_adapter_sentinel [of example_world example_llm, THEN conjunct1]
    generate_adapter_sentinel
      [of example_world "example_llm\<lparr>adapter_weights := ''lora-out''\<rparr>", THEN conjunct1]
  by (simp add: example_world_def example_llm_def)

text \<open>
  The claim as first stated names the sentinel \<^verbatim>\<open>"none"\<close>. With that path configured
  the adapter is not skipped: \<^verbatim>\<open>"none" != "None"\<close>, and \<^verbatim>\<open>generate\<close> loads an adapter
  from the path \<^verbatim>\<open>"none"\<close>.
\<close>

theorem generate_lowercase_none_loads_adapter:
  "adapter_weights (auto_device example_world (example_llm\<lparr>adapter_weights := ''none''\<rparr>))
     = ''none''
   \<and> fst (snd (generate example_world (example_llm\<lparr>adapter_weights := ''none''\<rparr>)))
       = [AutoDevice, ModelFromPretrained ''llama'' False ''auto'',
          TokenizerFromPretrained ''llama'' False, AddSpecialTokens,
          PeftFromPretrained ''none'', ModelHalf, ModelTo ''cuda'', ModelEval, GetEvalInput,
          EvalOutput [[(''input'', VStr ''good''), (''ac_output'', VStr ''negative'')]]]
   \<and> list_ex loads_adapter
       (fst (snd (generate example_world (example_llm\<lparr>adapter_weights := ''none''\<rparr>))))"
  by code_simp

end
